theory Spec2Isabelle
  imports Complex_Main
begin

section \<open>Failures\<close>

text \<open>
  Every exception the services raise is a value. The first four are the NestJS
  exceptions of the source, with their message. \<open>UniqueConstraintViolation\<close> and
  \<open>RecordNotFound\<close> are what the store raises on an insert that repeats a unique
  column and on an update of a row that is not there; \<open>RedisError\<close> is a command a
  cache node rejects; \<open>SyntaxError\<close> is \<open>JSON.parse\<close> on a text that is not JSON;
  \<open>OtherError\<close> is any other failure a caller's closure throws.
\<close>

datatype error =
    BadRequestException string
  | ConflictException string
  | NotFoundException string
  | InternalServerErrorException string
  | UniqueConstraintViolation string
  | RecordNotFound string
  | RedisError string
  | SyntaxError string
  | OtherError string

section \<open>The store of record: seats and bookings\<close>

text \<open>
  The tables of \<open>prisma/migrations\<close>. A table is the list of its rows. Timestamps are
  milliseconds as \<open>int\<close>; a nullable column is an \<open>option\<close>. The columns
  \<open>createdAt\<close> and \<open>updatedAt\<close> of \<open>Seat\<close> and \<open>Booking\<close> are read by no operation
  and are left out. \<open>version\<close> is the column of the optimistic lock; it is an
  unbounded integer here (the column is a 32-bit \<open>INTEGER\<close>, and the store refuses an
  increment past its range).
\<close>

datatype SeatStatus = AVAILABLE | HOLD | BOOKED

datatype BookingStatus = CONFIRMED | CANCELLED | EXPIRED

record Seat =
  seat_id :: string
  status :: SeatStatus
  version :: int
  holdExpiresAt :: "int option"

record Booking =
  booking_id :: string
  seatId :: string
  userId :: string
  booking_status :: BookingStatus
  idempotencyKey :: string
  expiresAt :: "int option"

record database =
  seats :: "Seat list"
  bookings :: "Booking list"

text \<open>\<open>tx.seat.findUnique({ where: { id } })\<close>: the row with that primary key, or null.\<close>

definition seat_findUnique :: "Seat list \<Rightarrow> string \<Rightarrow> Seat option" where
  "seat_findUnique rows sid = find (\<lambda>r. seat_id r = sid) rows"

text \<open>
  \<open>tx.seat.updateMany({ where, data })\<close>: every row that satisfies \<open>where\<close> is rewritten
  by \<open>data\<close>; the result carries the number of rows affected.
\<close>

definition seat_updateMany ::
  "(Seat \<Rightarrow> bool) \<Rightarrow> (Seat \<Rightarrow> Seat) \<Rightarrow> Seat list \<Rightarrow> nat \<times> Seat list" where
  "seat_updateMany wh data rows =
     (length (filter wh rows), map (\<lambda>r. if wh r then data r else r) rows)"

definition booking_updateMany ::
  "(Booking \<Rightarrow> bool) \<Rightarrow> (Booking \<Rightarrow> Booking) \<Rightarrow> Booking list \<Rightarrow> nat \<times> Booking list" where
  "booking_updateMany wh data rows =
     (length (filter wh rows), map (\<lambda>r. if wh r then data r else r) rows)"

text \<open>
  \<open>tx.booking.create({ data })\<close>: the insert is refused when a row already carries the
  idempotency key (the unique index \<open>Booking_idempotencyKey_key\<close>). The primary key of
  the new row is generated by the store; here it is the \<open>booking_id\<close> of the row
  handed in.
\<close>

definition booking_create :: "Booking \<Rightarrow> Booking list \<Rightarrow> error + Booking list" where
  "booking_create b rows =
     (if \<exists>r \<in> set rows. idempotencyKey r = idempotencyKey b
      then Inl (UniqueConstraintViolation ''idempotencyKey'')
      else Inr (rows @ [b]))"

text \<open>
  Modelled from the spec: the store's transactional execution (\<open>prisma.$transaction\<close> with
  a callback; \<open>PrismaService\<close> is not among the files of \<open>src\<close>). The callback works on the
  tables \<open>s\<close> of the transaction and may act on the world \<open>w\<close> outside it. A failure
  that propagates out of the callback rolls back every write of the callback to the tables
  and is handed on unchanged; what the callback did outside the transaction stays done. A
  callback that returns commits.
\<close>

definition prisma_transaction ::
  "('s \<Rightarrow> 'w \<Rightarrow> (error + 'a) \<times> 's \<times> 'w) \<Rightarrow> 's \<Rightarrow> 'w \<Rightarrow> (error + 'a) \<times> 's \<times> 'w" where
  "prisma_transaction callback s w =
     (case callback s w of
        (Inl e, _, w') \<Rightarrow> (Inl e, s, w')
      | (Inr v, s', w') \<Rightarrow> (Inr v, s', w'))"

text \<open>\<open>TransactionService.runInTransaction\<close> hands its operation to \<open>$transaction\<close>.\<close>

definition runInTransaction ::
  "('s \<Rightarrow> 'w \<Rightarrow> (error + 'a) \<times> 's \<times> 'w) \<Rightarrow> 's \<Rightarrow> 'w \<Rightarrow> (error + 'a) \<times> 's \<times> 'w" where
  "runInTransaction operation = prisma_transaction operation"

section \<open>Reserve: \<open>BookingService.createBooking\<close>\<close>

record CreateBookingInput =
  input_seatId :: string
  input_userId :: string
  input_idempotencyKey :: string

text \<open>
  \<open>seat.status === 'HOLD' && seat.holdExpiresAt && seat.holdExpiresAt <= now\<close>. A date is
  never falsy, so the middle conjunct asks that the column is not null.
\<close>

definition holdExpired :: "Seat \<Rightarrow> int \<Rightarrow> bool" where
  "holdExpired seat now =
     (status seat = HOLD \<and> (case holdExpiresAt seat of None \<Rightarrow> False | Some t \<Rightarrow> t \<le> now))"

text \<open>
  The first half of the transaction's callback: the seat is read and its state is
  validated. The result is the row as read, whose \<open>version\<close> guards the update.
\<close>

definition createBooking_read :: "Seat list \<Rightarrow> string \<Rightarrow> int \<Rightarrow> error + Seat" where
  "createBooking_read rows sid now =
     (case seat_findUnique rows sid of
        None \<Rightarrow> Inl (NotFoundException ''Seat not found'')
      | Some seat \<Rightarrow>
          if status seat = BOOKED then Inl (ConflictException ''Seat already booked'')
          else if status seat = HOLD \<and> \<not> holdExpired seat now
            then Inl (ConflictException ''Seat currently on hold'')
          else Inr seat)"

text \<open>
  The second half: the booking is inserted, then the seat is updated under the guard
  \<open>where: { id: seat.id, version: seat.version }\<close>. Zero affected rows raise the
  conflict. The writes land on the table as it is when they are issued, which is the
  table the seat was read from only if nothing was committed in between.
\<close>

definition createBooking_write ::
  "CreateBookingInput \<Rightarrow> string \<Rightarrow> Seat \<Rightarrow> database \<Rightarrow> (error + Booking \<times> int) \<times> database" where
  "createBooking_write input newId seat db =
     (let booking = \<lparr> booking_id = newId, seatId = input_seatId input,
                       userId = input_userId input, booking_status = CONFIRMED,
                       idempotencyKey = input_idempotencyKey input, expiresAt = None \<rparr>
      in case booking_create booking (bookings db) of
           Inl e \<Rightarrow> (Inl e, db)
         | Inr bs \<Rightarrow>
             (let (count, ss) =
                    seat_updateMany
                      (\<lambda>r. seat_id r = seat_id seat \<and> version r = version seat)
                      (\<lambda>r. r\<lparr> status := BOOKED, holdExpiresAt := None, version := version r + 1 \<rparr>)
                      (seats db);
                  db' = \<lparr> seats = ss, bookings = bs \<rparr>
              in if count = 0 then (Inl (ConflictException ''Seat changed during booking''), db')
                 else (Inr (booking, 201), db')))"

text \<open>
  The whole transaction. \<open>db0\<close> is the committed state the seat is read from and
  \<open>db\<close> the committed state the writes meet; under read-committed isolation other
  transactions may have committed between the two. A failure leaves \<open>db\<close> as it is.
\<close>

definition createBookingTx_at ::
  "CreateBookingInput \<Rightarrow> string \<Rightarrow> int \<Rightarrow> database \<Rightarrow> database \<Rightarrow>
     (error + Booking \<times> int) \<times> database" where
  "createBookingTx_at input newId now db0 db =
     (case runInTransaction
             (\<lambda>d (u::unit).
                case createBooking_read (seats db0) (input_seatId input) now of
                  Inl e \<Rightarrow> (Inl e, d, u)
                | Inr seat \<Rightarrow>
                    (case createBooking_write input newId seat d of (r, d') \<Rightarrow> (r, d', u)))
             db ()
      of (r, d', _) \<Rightarrow> (r, d'))"

text \<open>The transaction when nothing is committed between its read and its writes.\<close>

definition createBookingTx ::
  "CreateBookingInput \<Rightarrow> string \<Rightarrow> int \<Rightarrow> database \<Rightarrow> (error + Booking \<times> int) \<times> database" where
  "createBookingTx input newId now db = createBookingTx_at input newId now db db"

text \<open>
  The transaction of the earlier \<open>booking.service.ts\<close>, which has no idempotency
  coordinator before it: it first looks the idempotency key up among the bookings and
  answers with the booking it finds. The rest is the same read and the same writes.
\<close>

definition createBookingTx_legacy_at ::
  "CreateBookingInput \<Rightarrow> string \<Rightarrow> int \<Rightarrow> database \<Rightarrow> database \<Rightarrow> (error + Booking) \<times> database" where
  "createBookingTx_legacy_at input newId now db0 db =
     (case runInTransaction
             (\<lambda>d (u::unit).
                case find (\<lambda>b. idempotencyKey b = input_idempotencyKey input) (bookings db0) of
                  Some existing \<Rightarrow>
                    if seatId existing \<noteq> input_seatId input \<or> userId existing \<noteq> input_userId input
                    then (Inl (ConflictException ''Idempotency key reuse with different payload''), d, u)
                    else (Inr existing, d, u)
                | None \<Rightarrow>
                    (case createBooking_read (seats db0) (input_seatId input) now of
                       Inl e \<Rightarrow> (Inl e, d, u)
                     | Inr seat \<Rightarrow>
                         (case createBooking_write input newId seat d of
                            (Inl e, d') \<Rightarrow> (Inl e, d', u)
                          | (Inr (booking, _), d') \<Rightarrow> (Inr booking, d', u))))
             db ()
      of (r, d', _) \<Rightarrow> (r, d'))"

section \<open>Hold: \<open>SeatService.holdSeat\<close>\<close>

text \<open>
  The body that \<open>holdSeat\<close> runs under the seat's lock (the single-node lock of
  \<open>RedisLockService\<close>, which writes nothing to the store). It is not inside a
  transaction: the read, the guarded update and the final read are three statements. As
  for the reserve, the seat is read from \<open>db0\<close> and the update meets \<open>db\<close>.
\<close>

definition holdSeat_read :: "Seat list \<Rightarrow> string \<Rightarrow> int \<Rightarrow> error + Seat" where
  "holdSeat_read rows sid now =
     (case seat_findUnique rows sid of
        None \<Rightarrow> Inl (NotFoundException ''Seat not found'')
      | Some seat \<Rightarrow>
          if status seat = BOOKED then Inl (ConflictException ''Seat already booked'')
          else if status seat = HOLD \<and> \<not> holdExpired seat now
            then Inl (ConflictException ''Seat already on hold'')
          else Inr seat)"

definition holdSeat_write ::
  "string \<Rightarrow> int \<Rightarrow> Seat \<Rightarrow> database \<Rightarrow> (error + Seat option) \<times> database" where
  "holdSeat_write sid expires seat db =
     (let (count, ss) =
            seat_updateMany
              (\<lambda>r. seat_id r = seat_id seat \<and> version r = version seat)
              (\<lambda>r. r\<lparr> status := HOLD, holdExpiresAt := Some expires, version := version r + 1 \<rparr>)
              (seats db);
          db' = db\<lparr> seats := ss \<rparr>
      in if count = 0 then (Inl (ConflictException ''Seat state changed, retry''), db')
         else (Inr (seat_findUnique ss sid), db'))"

text \<open>\<open>holdTtlMs\<close> is the knob \<open>HOLD_TTL_MS\<close>; the hold ends at \<open>Date.now() + holdTtlMs\<close>.\<close>

definition holdSeat_at ::
  "string \<Rightarrow> int \<Rightarrow> int \<Rightarrow> database \<Rightarrow> database \<Rightarrow> (error + Seat option) \<times> database" where
  "holdSeat_at sid now holdTtlMs db0 db =
     (case holdSeat_read (seats db0) sid now of
        Inl e \<Rightarrow> (Inl e, db)
      | Inr seat \<Rightarrow> holdSeat_write sid (now + holdTtlMs) seat db)"

definition holdSeat ::
  "string \<Rightarrow> int \<Rightarrow> int \<Rightarrow> database \<Rightarrow> (error + Seat option) \<times> database" where
  "holdSeat sid now holdTtlMs db = holdSeat_at sid now holdTtlMs db db"

section \<open>The reapers\<close>

text \<open>\<open>SeatService.releaseExpiredHolds\<close>: one bulk update, \<open>holdExpiresAt: { lt: now }\<close>.\<close>

definition releaseExpiredHolds :: "int \<Rightarrow> database \<Rightarrow> nat \<times> database" where
  "releaseExpiredHolds now db =
     (let (count, ss) =
            seat_updateMany
              (\<lambda>r. status r = HOLD \<and> (case holdExpiresAt r of None \<Rightarrow> False | Some t \<Rightarrow> t < now))
              (\<lambda>r. r\<lparr> status := AVAILABLE, holdExpiresAt := None, version := version r + 1 \<rparr>)
              (seats db)
      in (count, db\<lparr> seats := ss \<rparr>))"

text \<open>
  \<open>BookingCleanupService.expireBookings\<close>: inside one transaction, the seats of the
  CONFIRMED bookings past \<open>expiresAt\<close> are collected, those bookings become EXPIRED and
  the collected seats that are still BOOKED become AVAILABLE. The transaction is one
  step here.
\<close>

definition booking_expired :: "int \<Rightarrow> Booking \<Rightarrow> bool" where
  "booking_expired now b =
     (booking_status b = CONFIRMED \<and> (case expiresAt b of None \<Rightarrow> False | Some t \<Rightarrow> t < now))"

definition expireBookings :: "int \<Rightarrow> database \<Rightarrow> (error + nat) \<times> database" where
  "expireBookings now db0 =
     (case prisma_transaction
             (\<lambda>db (u::unit).
                let expiredBookings = filter (booking_expired now) (bookings db)
                in if length expiredBookings = 0 then (Inr 0, db, u)
                   else
                     (let seatIds = map seatId expiredBookings;
                          (_, bs) = booking_updateMany (booking_expired now)
                                      (\<lambda>b. b\<lparr> booking_status := EXPIRED \<rparr>) (bookings db);
                          (_, ss) = seat_updateMany
                                      (\<lambda>r. seat_id r \<in> set seatIds \<and> status r = BOOKED)
                                      (\<lambda>r. r\<lparr> status := AVAILABLE, version := version r + 1 \<rparr>)
                                      (seats db)
                      in (Inr (length expiredBookings), \<lparr> seats = ss, bookings = bs \<rparr>, u)))
             db0 ()
      of (r, db', _) \<Rightarrow> (r, db'))"

section \<open>Sequences of operations on the store\<close>

text \<open>
  An operation is one call of a writer of seat state. \<open>Reserve\<close> and \<open>HoldSeat\<close> carry
  a number \<open>k\<close>: their seat was read \<open>k\<close> committed operations before their writes are
  issued (\<open>k = 0\<close>: nothing came between, the operation is atomic). This is how a
  critical section that outlived its lock meets the version guard. The reapers are
  single steps.
\<close>

datatype operation =
    Reserve CreateBookingInput string int nat
  | HoldSeat string int int nat
  | ReleaseExpiredHolds int
  | ExpireBookings int

datatype outcome = Booked "Booking \<times> int" | Held "Seat option" | Swept nat

text \<open>
  \<open>past\<close> lists the earlier committed states, the latest first. A \<open>k\<close> that reaches
  behind the first state reads the current one.
\<close>

definition read_state :: "database \<Rightarrow> database list \<Rightarrow> nat \<Rightarrow> database" where
  "read_state db past k = (if k = 0 \<or> length past < k then db else past ! (k - 1))"

fun exec :: "operation \<Rightarrow> database \<Rightarrow> database list \<Rightarrow> (error + outcome) \<times> database" where
  "exec (Reserve input newId now k) db past =
     (case createBookingTx_at input newId now (read_state db past k) db of
        (Inl e, db') \<Rightarrow> (Inl e, db')
      | (Inr b, db') \<Rightarrow> (Inr (Booked b), db'))"
| "exec (HoldSeat sid now holdTtlMs k) db past =
     (case holdSeat_at sid now holdTtlMs (read_state db past k) db of
        (Inl e, db') \<Rightarrow> (Inl e, db')
      | (Inr s, db') \<Rightarrow> (Inr (Held s), db'))"
| "exec (ReleaseExpiredHolds now) db past =
     (case releaseExpiredHolds now db of (n, db') \<Rightarrow> (Inr (Swept n), db'))"
| "exec (ExpireBookings now) db past =
     (case expireBookings now db of
        (Inl e, db') \<Rightarrow> (Inl e, db')
      | (Inr n, db') \<Rightarrow> (Inr (Swept n), db'))"


subsection \<open>The invariants of the store\<close>

text \<open>At most one CONFIRMED booking per seat: the CONFIRMED bookings name different seats.\<close>

definition one_confirmed_per_seat :: "database \<Rightarrow> bool" where
  "one_confirmed_per_seat db =
     distinct (map seatId (filter (\<lambda>b. booking_status b = CONFIRMED) (bookings db)))"

text \<open>The seat of every CONFIRMED booking is BOOKED.\<close>

definition confirmed_seats_booked :: "database \<Rightarrow> bool" where
  "confirmed_seats_booked db =
     (\<forall>b \<in> set (bookings db). booking_status b = CONFIRMED \<longrightarrow>
        (\<exists>r \<in> set (seats db). seat_id r = seatId b \<and> status r = BOOKED))"

text \<open>The primary key of \<open>Seat\<close>.\<close>

definition seat_ids_unique :: "database \<Rightarrow> bool" where
  "seat_ids_unique db = distinct (map seat_id (seats db))"

definition consistent :: "database \<Rightarrow> bool" where
  "consistent db = (seat_ids_unique db \<and> one_confirmed_per_seat db \<and> confirmed_seats_booked db)"

text \<open>
  How a seat row may differ after one operation: it is untouched, or its version went up
  by exactly one. And how it may differ after many: its version did not go down, and
  if it is the same the row is the same.
\<close>

definition bumped :: "Seat \<Rightarrow> Seat \<Rightarrow> bool" where
  "bumped r r' = (seat_id r' = seat_id r \<and> (r' = r \<or> version r' = version r + 1))"


section \<open>The idempotency coordinator: \<open>IdempotencyService.checkOrCreate\<close>\<close>

datatype IdempotencyState = IN_PROGRESS | SUCCESS | FAILED

record IdempotencyRecord =
  record_key :: string
  state :: IdempotencyState
  requestHash :: "string option"
  responseData :: "string option"
  statusCode :: "int option"
  createdAt :: int
  updatedAt :: int
  record_expiresAt :: int

record 'a IdempotencyResult =
  isDuplicate :: bool
  cachedResponse :: 'a
  result_statusCode :: int

text \<open>
  The service object: its TTL (the knob \<open>IDEMPOTENCY_TTL_MS\<close>), and the library
  functions it calls. \<open>hashRequest\<close> is SHA-256 of the payload's JSON text, \<open>stringify\<close>
  is \<open>JSON.stringify\<close> and \<open>parse\<close> is \<open>JSON.parse\<close>, which has no result on a text
  that is not JSON.
\<close>

record ('p, 'a) IdempotencyService =
  service_ttlMs :: int
  hashRequest :: "'p \<Rightarrow> string"
  stringify :: "'a \<Rightarrow> string"
  parse :: "string \<Rightarrow> 'a option"

definition record_findUnique :: "IdempotencyRecord list \<Rightarrow> string \<Rightarrow> IdempotencyRecord option" where
  "record_findUnique rows key = find (\<lambda>r. record_key r = key) rows"

text \<open>\<open>tx.idempotencyRecord.create\<close>: the key is the primary key of the table.\<close>

definition record_create ::
  "IdempotencyRecord \<Rightarrow> IdempotencyRecord list \<Rightarrow> error + IdempotencyRecord list" where
  "record_create row rows =
     (if \<exists>r \<in> set rows. record_key r = record_key row
      then Inl (UniqueConstraintViolation ''idempotencyKey'')
      else Inr (rows @ [row]))"

text \<open>\<open>tx.idempotencyRecord.update({ where: { idempotencyKey }, data })\<close>.\<close>

definition record_update ::
  "string \<Rightarrow> (IdempotencyRecord \<Rightarrow> IdempotencyRecord) \<Rightarrow> IdempotencyRecord list \<Rightarrow>
     error + IdempotencyRecord list" where
  "record_update key data rows =
     (if \<exists>r \<in> set rows. record_key r = key
      then Inr (map (\<lambda>r. if record_key r = key then data r else r) rows)
      else Inl (RecordNotFound ''IdempotencyRecord''))"

text \<open>
  \<open>checkOrCreate\<close>. \<open>now\<close> is the clock when the call starts and \<open>doneAt\<close> the clock when
  \<open>work\<close> has settled. \<open>work\<close> acts on the world \<open>w\<close> outside the transaction (it opens a
  transaction of its own); its result is null only against its type, which the source
  still tests for. The \<open>try\<close>, \<open>catch\<close> and \<open>finally\<close> around \<open>work\<close> are the three
  bindings \<open>finalState\<close>, \<open>thrown\<close> and the update: the update of \<open>finally\<close> runs on
  both paths, and a failure of its own would replace the one of \<open>work\<close>.
\<close>

definition checkOrCreate ::
  "('p, 'a) IdempotencyService \<Rightarrow> int \<Rightarrow> int \<Rightarrow> string \<Rightarrow> 'p \<Rightarrow>
     ('w \<Rightarrow> (error + ('a \<times> int) option) \<times> 'w) \<Rightarrow> IdempotencyRecord list \<Rightarrow> 'w \<Rightarrow>
     (error + 'a IdempotencyResult) \<times> IdempotencyRecord list \<times> 'w" where
  "checkOrCreate svc now doneAt key requestPayload work records w0 =
     (if key = [] then (Inl (BadRequestException ''Idempotency-Key is required''), records, w0)
      else
        (let hash = hashRequest svc requestPayload;
             expires = now + service_ttlMs svc
         in runInTransaction
              (\<lambda>tx w.
                 case record_findUnique tx key of
                   Some existing \<Rightarrow>
                     if requestHash existing \<noteq> Some hash
                     then (Inl (ConflictException ''Idempotency key reuse with different payload''), tx, w)
                     else
                       (case state existing of
                          SUCCESS \<Rightarrow>
                            if responseData existing = None \<or> responseData existing = Some []
                               \<or> statusCode existing = None
                            then (Inl (InternalServerErrorException ''Cached response missing''), tx, w)
                            else
                              (case parse svc (the (responseData existing)) of
                                 None \<Rightarrow> (Inl (SyntaxError ''JSON.parse''), tx, w)
                               | Some v \<Rightarrow>
                                   (Inr \<lparr> isDuplicate = True, cachedResponse = v,
                                          result_statusCode = the (statusCode existing) \<rparr>, tx, w))
                        | FAILED \<Rightarrow>
                            (Inl (ConflictException
                                    ''Previous request with this idempotency key failed''), tx, w)
                        | IN_PROGRESS \<Rightarrow>
                            (let age = now - createdAt existing
                             in if age > service_ttlMs svc
                                then
                                  (case record_update key
                                          (\<lambda>r. r\<lparr> state := FAILED, updatedAt := now \<rparr>) tx of
                                     Inl e \<Rightarrow> (Inl e, tx, w)
                                   | Inr tx' \<Rightarrow>
                                       (Inl (ConflictException ''Previous request timed out''), tx', w))
                                else (Inl (ConflictException ''Request already in progress''), tx, w)))
                 | None \<Rightarrow>
                     (case record_create
                             \<lparr> record_key = key, state = IN_PROGRESS, requestHash = Some hash,
                               responseData = None, statusCode = None, createdAt = now,
                               updatedAt = now, record_expiresAt = expires \<rparr> tx of
                        Inl e \<Rightarrow> (Inl e, tx, w)
                      | Inr tx1 \<Rightarrow>
                          (let (outcome, w') = work w;
                               result = (case outcome of Inl _ \<Rightarrow> None | Inr res \<Rightarrow> res);
                               thrown = (case outcome of Inl e \<Rightarrow> Some e | Inr _ \<Rightarrow> None);
                               finalState = (case outcome of Inl _ \<Rightarrow> FAILED | Inr _ \<Rightarrow> SUCCESS);
                               cached = (finalState = SUCCESS \<and> result \<noteq> None)
                           in case record_update key
                                     (\<lambda>r. r\<lparr> state := finalState,
                                              responseData :=
                                                (if cached then Some (stringify svc (fst (the result)))
                                                 else None),
                                              statusCode :=
                                                (if cached then Some (snd (the result)) else None),
                                              updatedAt := doneAt \<rparr>) tx1 of
                                Inl e \<Rightarrow> (Inl e, tx1, w')
                              | Inr tx2 \<Rightarrow>
                                  (case thrown of
                                     Some e \<Rightarrow> (Inl e, tx2, w')
                                   | None \<Rightarrow>
                                       (case result of
                                          None \<Rightarrow>
                                            (Inl (InternalServerErrorException
                                                    ''Work completed but result is missing''), tx2, w')
                                        | Some (d, c) \<Rightarrow>
                                            (Inr \<lparr> isDuplicate = False, cachedResponse = d,
                                                   result_statusCode = c \<rparr>, tx2, w'))))))
              records w0))"

text \<open>\<open>cleanupExpired\<close>: the records past \<open>expiresAt\<close> are deleted, whatever their state.\<close>

definition cleanupExpired :: "int \<Rightarrow> IdempotencyRecord list \<Rightarrow> nat \<times> IdempotencyRecord list" where
  "cleanupExpired now rows =
     (length (filter (\<lambda>r. record_expiresAt r < now) rows),
      filter (\<lambda>r. \<not> record_expiresAt r < now) rows)"

section \<open>The configuration accessor: \<open>envNumber\<close>\<close>

text \<open>
  A JavaScript number is a finite number, an infinity or NaN. \<open>Number\<close> of a string is
  the language's conversion and is a parameter; \<open>Number(undefined)\<close> is NaN.
\<close>

datatype js_number = NaN | PosInfinity | NegInfinity | Num real

definition envNumber ::
  "(string \<Rightarrow> js_number) \<Rightarrow> (string \<Rightarrow> string option) \<Rightarrow> string \<Rightarrow> js_number \<Rightarrow> js_number" where
  "envNumber Number env key defaultValue =
     (case (case env key of None \<Rightarrow> NaN | Some s \<Rightarrow> Number s) of
        Num x \<Rightarrow> if 0 < x then Num x else defaultValue
      | _ \<Rightarrow> defaultValue)"

definition positive :: "js_number \<Rightarrow> bool" where
  "positive n = (case n of Num x \<Rightarrow> 0 < x | _ \<Rightarrow> False)"

text \<open>The knobs of the repository, each with the default of its call.\<close>

definition knobs :: "(string \<times> js_number) list" where
  "knobs =
     [(''IDEMPOTENCY_TTL_MS'', Num 300000), (''REDLOCK_DRIFT_FACTOR'', Num (1 / 100)),
      (''REDLOCK_RETRY_COUNT'', Num 3), (''REDLOCK_RETRY_DELAY_MS'', Num 200),
      (''LOCK_TTL_MS'', Num 5000), (''LOCK_TTL_MS'', Num 3000), (''HOLD_TTL_MS'', Num 120000),
      (''HOLD_SWEEP_INTERVAL_MS'', Num 10000), (''BOOKING_CLEANUP_INTERVAL_MS'', Num 60000),
      (''IDEMPOTENCY_CLEANUP_INTERVAL_MS'', Num 60000)]"

section \<open>The distributed lock: \<open>RedlockService\<close>\<close>

text \<open>
  A cache node keeps, for a key, the token that holds it and the time its TTL ends; an
  entry whose TTL has ended reads as absent. A node answers a command issued at time
  \<open>t\<close> only if it is \<open>reachable\<close> at \<open>t\<close>; otherwise the command is rejected and the
  node is unchanged.
\<close>

record redis_node =
  reachable :: "int \<Rightarrow> bool"
  store :: "string \<Rightarrow> (string \<times> int) option"

text \<open>
  What the service talks to: the clock in milliseconds, the nodes, and two things that
  make the effects observable. \<open>latencies\<close> lists how long the coming awaits of a
  batch of node commands take, in the order they are issued (none left: no time passes).
  \<open>trace\<close> records each batch of commands sent to the nodes and each wait.
\<close>

datatype io_event =
    SetIfAbsent string string int
  | CompareAndDelete string string
  | CompareAndExtend string string int
  | Sleep int

record world =
  time :: int
  latencies :: "nat list"
  clients :: "redis_node list"
  trace :: "io_event list"

record redlock_config =
  driftFactor :: real
  retryCount :: real
  retryDelayMs :: int

record LockResult =
  token :: string
  validityTime :: int

definition live_value :: "redis_node \<Rightarrow> int \<Rightarrow> string \<Rightarrow> string option" where
  "live_value n t key =
     (case store n key of
        None \<Rightarrow> None
      | Some (tok, deadline) \<Rightarrow> if t < deadline then Some tok else None)"

definition elapse :: "world \<Rightarrow> world" where
  "elapse w =
     (case latencies w of [] \<Rightarrow> w | d # ds \<Rightarrow> w\<lparr> time := time w + int d, latencies := ds \<rparr>)"

text \<open>\<open>await new Promise((resolve) => setTimeout(resolve, d))\<close>.\<close>

definition sleep :: "int \<Rightarrow> world \<Rightarrow> world" where
  "sleep d w = w\<lparr> time := time w + d, trace := trace w @ [Sleep d] \<rparr>"

text \<open>
  \<open>this.clients.map((client) => command(client))\<close>, awaited: the command reaches every
  node at the present time; the answers are there when the await is over.
\<close>

definition on_all ::
  "(int \<Rightarrow> redis_node \<Rightarrow> (error + 'a) \<times> redis_node) \<Rightarrow> io_event \<Rightarrow> world \<Rightarrow>
     (error + 'a) list \<times> world" where
  "on_all command ev w =
     (let rs = map (command (time w)) (clients w)
      in (map fst rs, elapse (w\<lparr> clients := map snd rs, trace := trace w @ [ev] \<rparr>)))"

text \<open>
  \<open>Promise.all\<close> rejects with the first rejection and otherwise gives every value;
  \<open>Promise.allSettled\<close> never rejects.
\<close>

fun Promise_all :: "(error + 'a) list \<Rightarrow> error + 'a list" where
  "Promise_all [] = Inr []"
| "Promise_all (Inl e # rs) = Inl e"
| "Promise_all (Inr v # rs) = (case Promise_all rs of Inl e \<Rightarrow> Inl e | Inr vs \<Rightarrow> Inr (v # vs))"

definition Promise_allSettled :: "(error + 'a) list \<Rightarrow> error + (error + 'a) list" where
  "Promise_allSettled rs = Inr rs"

text \<open>\<open>Math.floor(this.clients.length / 2) + 1\<close>.\<close>

definition quorum :: "world \<Rightarrow> nat" where
  "quorum w = length (clients w) div 2 + 1"

text \<open>\<open>client.set(key, token, 'PX', ttlMs, 'NX')\<close>, and whether the answer is \<open>'OK'\<close>.\<close>

definition acquireLockOnInstance ::
  "string \<Rightarrow> string \<Rightarrow> int \<Rightarrow> int \<Rightarrow> redis_node \<Rightarrow> (error + bool) \<times> redis_node" where
  "acquireLockOnInstance key tok ttlMs t client =
     (if \<not> reachable client t then (Inl (RedisError ''connection''), client)
      else if live_value client t key = None
        then (Inr True, client\<lparr> store := (store client)(key \<mapsto> (tok, t + ttlMs)) \<rparr>)
      else (Inr False, client))"

text \<open>The script of \<open>releaseLockOnInstance\<close>: delete the key if it holds the token.\<close>

definition releaseLockOnInstance ::
  "string \<Rightarrow> string \<Rightarrow> int \<Rightarrow> redis_node \<Rightarrow> (error + bool) \<times> redis_node" where
  "releaseLockOnInstance key tok t client =
     (if \<not> reachable client t then (Inl (RedisError ''connection''), client)
      else if live_value client t key = Some tok
        then (Inr True, client\<lparr> store := (store client)(key := None) \<rparr>)
      else (Inr False, client))"

definition releaseLockOnAllInstances :: "string \<Rightarrow> string \<Rightarrow> world \<Rightarrow> (error + unit) \<times> world" where
  "releaseLockOnAllInstances key tok w =
     (case on_all (releaseLockOnInstance key tok) (CompareAndDelete key tok) w of
        (outcomes, w') \<Rightarrow>
          (case Promise_allSettled outcomes of Inl e \<Rightarrow> (Inl e, w') | Inr _ \<Rightarrow> (Inr (), w')))"

definition releaseLock :: "string \<Rightarrow> string \<Rightarrow> world \<Rightarrow> (error + unit) \<times> world" where
  "releaseLock key tok w = releaseLockOnAllInstances key tok w"

text \<open>
  The loop of \<open>acquireLock\<close>, from \<open>attempt\<close> on. \<open>retryCount\<close> is a number, not
  necessarily whole, so the loop runs while \<open>attempt < retryCount\<close> as in the source.
\<close>

function acquire_attempts ::
  "redlock_config \<Rightarrow> string \<Rightarrow> string \<Rightarrow> int \<Rightarrow> int \<Rightarrow> nat \<Rightarrow> world \<Rightarrow> (error + LockResult) \<times> world" where
  "acquire_attempts cfg key tok ttlMs startTime attempt w =
     (if real attempt < retryCount cfg then
        (case on_all (acquireLockOnInstance key tok ttlMs) (SetIfAbsent key tok ttlMs) w of
           (outcomes, w1) \<Rightarrow>
             (case Promise_all outcomes of
                Inl e \<Rightarrow> (Inl e, w1)
              | Inr acquired \<Rightarrow>
                  if quorum w1 \<le> length (filter (\<lambda>result. result) acquired)
                  then (Inr \<lparr> token = tok,
                              validityTime =
                                max (ttlMs - (time w1 - startTime)
                                       - \<lfloor>real_of_int ttlMs * driftFactor cfg\<rfloor>) 0 \<rparr>, w1)
                  else
                    (case releaseLockOnAllInstances key tok w1 of
                       (Inl e, w2) \<Rightarrow> (Inl e, w2)
                     | (Inr _, w2) \<Rightarrow>
                         acquire_attempts cfg key tok ttlMs startTime (attempt + 1)
                           (if real attempt < retryCount cfg - 1
                            then sleep (retryDelayMs cfg) w2 else w2))))
      else (Inl (ConflictException ''Failed to acquire lock on quorum of Redis instances''), w))"
  by pat_completeness auto
termination
proof (relation "measure (\<lambda>(cfg, key, tok, ttlMs, startTime, attempt, w).
                   nat \<lceil>retryCount cfg - real attempt\<rceil>)", goal_cases)
  case 1
  show ?case by simp
next
  case (2 cfg key tok ttlMs startTime attempt w)
  have "retryCount cfg - real (attempt + 1) = (retryCount cfg - real attempt) - 1" by simp
  then have "\<lceil>retryCount cfg - real (attempt + 1)\<rceil> = \<lceil>retryCount cfg - real attempt\<rceil> - 1"
    by (simp only: ceiling_diff_one)
  moreover from 2 have "0 < \<lceil>retryCount cfg - real attempt\<rceil>" by simp
  ultimately show ?case by simp
qed

declare acquire_attempts.simps [simp del]

text \<open>
  \<open>acquireLock\<close>. The token is \<open>randomUUID()\<close>, here the argument \<open>tok\<close>. The two
  readings of the clock before the loop are one instant.
\<close>

definition acquireLock ::
  "redlock_config \<Rightarrow> string \<Rightarrow> int \<Rightarrow> string \<Rightarrow> world \<Rightarrow> (error + LockResult) \<times> world" where
  "acquireLock cfg key ttlMs tok w =
     (let startTime = time w;
          validity = ttlMs - \<lfloor>real_of_int ttlMs * driftFactor cfg\<rfloor> - (time w - startTime)
      in if validity \<le> 0 then (Inl (ConflictException ''Lock TTL too short for Redlock''), w)
         else acquire_attempts cfg key tok ttlMs startTime 0 w)"

text \<open>The script of \<open>extendLock\<close>: give the key a new TTL if it holds the token.\<close>

definition extendLockOnInstance ::
  "string \<Rightarrow> string \<Rightarrow> int \<Rightarrow> int \<Rightarrow> redis_node \<Rightarrow> (error + int) \<times> redis_node" where
  "extendLockOnInstance key tok ttlMs t client =
     (if \<not> reachable client t then (Inl (RedisError ''connection''), client)
      else if live_value client t key = Some tok
        then (Inr 1, client\<lparr> store := (store client)(key \<mapsto> (tok, t + ttlMs)) \<rparr>)
      else (Inr 0, client))"

definition extendLock :: "string \<Rightarrow> string \<Rightarrow> int \<Rightarrow> world \<Rightarrow> (error + bool) \<times> world" where
  "extendLock key tok ttlMs w =
     (case on_all (extendLockOnInstance key tok ttlMs) (CompareAndExtend key tok ttlMs) w of
        (outcomes, w') \<Rightarrow>
          (case Promise_all outcomes of
             Inl e \<Rightarrow> (Inl e, w')
           | Inr results \<Rightarrow>
               (Inr (quorum w' \<le> length (filter (\<lambda>result. result = 1) results)), w')))"

text \<open>
  The timer of \<open>withLock\<close>. It is set when \<open>extendIntervalMs\<close> is given, is not zero and
  is below the validity of the lock. While the work runs, the timer fires every
  \<open>interval\<close> milliseconds (at least one) and extends the lock; what an extension
  answers is only logged. The work lasts for the next entry of \<open>latencies\<close>; the ticks
  that fall before its end are run in order, then the clock is at the end of the work.
\<close>

definition extend_timer :: "int option \<Rightarrow> LockResult \<Rightarrow> int option" where
  "extend_timer extendIntervalMs lockResult =
     (case extendIntervalMs of
        None \<Rightarrow> None
      | Some i \<Rightarrow> if i \<noteq> 0 \<and> i < validityTime lockResult then Some i else None)"

function extend_ticks :: "string \<Rightarrow> string \<Rightarrow> int \<Rightarrow> int \<Rightarrow> int \<Rightarrow> int \<Rightarrow> world \<Rightarrow> world" where
  "extend_ticks key tok ttlMs interval t t_end w =
     (if t < t_end
      then extend_ticks key tok ttlMs interval (t + max interval 1) t_end
             (snd (extendLock key tok ttlMs (w\<lparr> time := t \<rparr>)))
      else w)"
  by pat_completeness auto
termination
  by (relation "measure (\<lambda>(key, tok, ttlMs, interval, t, t_end, w). nat (t_end - t))") auto

declare extend_ticks.simps [simp del]

definition while_working :: "string \<Rightarrow> string \<Rightarrow> int \<Rightarrow> int option \<Rightarrow> world \<Rightarrow> world" where
  "while_working key tok ttlMs timer w =
     (let d = (case latencies w of [] \<Rightarrow> 0 | d # _ \<Rightarrow> int d);
          t_end = time w + d;
          w1 = w\<lparr> latencies := tl (latencies w) \<rparr>;
          w2 = (case timer of
                  None \<Rightarrow> w1
                | Some interval \<Rightarrow>
                    extend_ticks key tok ttlMs interval (time w + max interval 1) t_end w1)
      in w2\<lparr> time := t_end \<rparr>)"

text \<open>
  \<open>withLock\<close>. The work acts on a state \<open>s\<close> of its own. The \<open>finally\<close> block stops the
  timer and awaits the release on both paths; a failure of the release would replace the
  outcome of the work.
\<close>

definition withLock ::
  "redlock_config \<Rightarrow> string \<Rightarrow> int \<Rightarrow> ('s \<Rightarrow> (error + 'a) \<times> 's) \<Rightarrow> int option \<Rightarrow> string \<Rightarrow>
     world \<Rightarrow> 's \<Rightarrow> (error + 'a) \<times> world \<times> 's" where
  "withLock cfg key ttlMs work extendIntervalMs tok w s =
     (case acquireLock cfg key ttlMs tok w of
        (Inl e, w1) \<Rightarrow> (Inl e, w1, s)
      | (Inr lockResult, w1) \<Rightarrow>
          (let (outcome, s') = work s;
               w2 = while_working key (token lockResult) ttlMs
                      (extend_timer extendIntervalMs lockResult) w1
           in case releaseLock key (token lockResult) w2 of
                (Inl e, w3) \<Rightarrow> (Inl e, w3, s')
              | (Inr _, w3) \<Rightarrow> (outcome, w3, s')))"

subsection \<open>What the theorems about the lock speak of\<close>






section \<open>The whole reserve: \<open>BookingService.createBooking\<close>\<close>

text \<open>
  The service call: validation, then the idempotency coordinator around the lock around
  the transaction. \<open>lockTtlMs\<close> is the knob \<open>LOCK_TTL_MS\<close>. The coordinator and the lock
  write neither seats nor bookings: they decide whether the transaction runs.
\<close>

definition createBooking ::
  "(string \<times> string, Booking) IdempotencyService \<Rightarrow> redlock_config \<Rightarrow> int \<Rightarrow> int \<Rightarrow> int \<Rightarrow>
     string \<Rightarrow> string \<Rightarrow> CreateBookingInput \<Rightarrow> IdempotencyRecord list \<Rightarrow> world \<times> database \<Rightarrow>
     (error + Booking) \<times> IdempotencyRecord list \<times> world \<times> database" where
  "createBooking idem cfg lockTtlMs now doneAt newId tok input records wd =
     (if input_seatId input = [] \<or> input_userId input = []
        then (Inl (BadRequestException ''seatId and userId are required''), records, wd)
      else if input_idempotencyKey input = []
        then (Inl (BadRequestException ''Idempotency-Key is required''), records, wd)
      else
        (let lockKey = ''seat:'' @ input_seatId input;
             extendIntervalMs = \<lfloor>real_of_int lockTtlMs * (6 / 10)\<rfloor>
         in case checkOrCreate idem now doneAt (input_idempotencyKey input)
                   (input_seatId input, input_userId input)
                   (\<lambda>(w, db).
                      case withLock cfg lockKey lockTtlMs (createBookingTx input newId now)
                             (Some extendIntervalMs) tok w db of
                        (r, w', db') \<Rightarrow> (map_sum id Some r, (w', db')))
                   records wd of
              (Inl e, records', wd') \<Rightarrow> (Inl e, records', wd')
            | (Inr res, records', wd') \<Rightarrow> (Inr (cachedResponse res), records', wd')))"

section \<open>Proofs\<close>

subsection \<open>The transactions, unfolded\<close>

lemma createBookingTx_at_eq:
  "createBookingTx_at input newId now db0 db =
     (case createBooking_read (seats db0) (input_seatId input) now of
        Inl e \<Rightarrow> (Inl e, db)
      | Inr seat \<Rightarrow>
          (case createBooking_write input newId seat db of
             (Inl e, _) \<Rightarrow> (Inl e, db)
           | (Inr v, db') \<Rightarrow> (Inr v, db')))"
  by (simp add: createBookingTx_at_def runInTransaction_def prisma_transaction_def
      split: sum.splits prod.splits)

lemma expireBookings_eq:
  "expireBookings now db =
     (if filter (booking_expired now) (bookings db) = [] then (Inr 0, db)
      else (Inr (length (filter (booking_expired now) (bookings db))),
            \<lparr> seats = snd (seat_updateMany
                            (\<lambda>r. seat_id r \<in> set (map seatId (filter (booking_expired now) (bookings db)))
                                 \<and> status r = BOOKED)
                            (\<lambda>r. r\<lparr> status := AVAILABLE, version := version r + 1 \<rparr>) (seats db)),
              bookings = snd (booking_updateMany (booking_expired now)
                               (\<lambda>b. b\<lparr> booking_status := EXPIRED \<rparr>) (bookings db)) \<rparr>))"
  by (simp add: expireBookings_def prisma_transaction_def Let_def case_prod_beta)

lemmas db_eval = consistent_def seat_ids_unique_def one_confirmed_per_seat_def confirmed_seats_booked_def
  createBookingTx_at_eq createBookingTx_def createBooking_read_def createBooking_write_def
  seat_findUnique_def seat_updateMany_def booking_updateMany_def booking_create_def holdExpired_def
  holdSeat_at_def holdSeat_def holdSeat_read_def holdSeat_write_def releaseExpiredHolds_def expireBookings_eq
  booking_expired_def read_state_def Let_def

subsection \<open>Versions\<close>

lemma bumped_refl: "bumped r r" by (simp add: bumped_def)

lemma list_all2_bumped_refl: "list_all2 bumped rows rows"
  by (simp add: list_all2_refl bumped_refl)

lemma updateMany_bumped:
  assumes "\<And>r. wh r \<Longrightarrow> seat_id (data r) = seat_id r \<and> version (data r) = version r + 1"
  shows "list_all2 bumped rows (snd (seat_updateMany wh data rows))"
  using assms by (induction rows) (auto simp: seat_updateMany_def bumped_def)

lemma updateMany_none:
  "fst (seat_updateMany wh data rows) = 0 \<Longrightarrow> snd (seat_updateMany wh data rows) = rows"
  by (induction rows) (auto simp: seat_updateMany_def split: if_splits)

lemma createBooking_write_bumped:
  "list_all2 bumped (seats db) (seats (snd (createBooking_write input newId seat db)))"
  by (simp add: createBooking_write_def Let_def case_prod_beta list_all2_bumped_refl updateMany_bumped split: sum.splits)

lemma createBookingTx_at_bumped:
  "list_all2 bumped (seats db) (seats (snd (createBookingTx_at input newId now db0 db)))"
  by (simp add: createBookingTx_at_eq case_prod_beta list_all2_bumped_refl
      createBooking_write_bumped split: sum.splits)

lemma holdSeat_at_bumped:
  "list_all2 bumped (seats db) (seats (snd (holdSeat_at sid now ttl db0 db)))"
  by (simp add: holdSeat_at_def holdSeat_write_def Let_def case_prod_beta list_all2_bumped_refl updateMany_bumped split: sum.splits)

lemma releaseExpiredHolds_bumped:
  "list_all2 bumped (seats db) (seats (snd (releaseExpiredHolds now db)))"
  by (simp add: releaseExpiredHolds_def Let_def case_prod_beta updateMany_bumped)

lemma expireBookings_bumped:
  "list_all2 bumped (seats db) (seats (snd (expireBookings now db)))"
  by (simp add: expireBookings_eq Let_def case_prod_beta list_all2_bumped_refl updateMany_bumped)

lemma exec_bumped: "list_all2 bumped (seats db) (seats (snd (exec x db past)))"
  by (cases x) (simp_all add: case_prod_beta createBookingTx_at_bumped holdSeat_at_bumped releaseExpiredHolds_bumped expireBookings_bumped split: sum.splits)

lemma createBooking_read_Inr:
  "createBooking_read rows sid now = Inr seat \<Longrightarrow>
     seat \<in> set rows \<and> seat_id seat = sid \<and> status seat \<noteq> BOOKED"
  by (auto simp: createBooking_read_def seat_findUnique_def find_Some_iff split: option.splits if_splits)

lemma holdSeat_read_Inr:
  "holdSeat_read rows sid now = Inr seat \<Longrightarrow>
     seat \<in> set rows \<and> seat_id seat = sid \<and> status seat \<noteq> BOOKED"
  by (auto simp: holdSeat_read_def seat_findUnique_def find_Some_iff split: option.splits if_splits)

lemma updateMany_hit:
  "fst (seat_updateMany wh data rows) \<noteq> 0 \<Longrightarrow> \<exists>r \<in> set rows. wh r"
  by (auto simp: seat_updateMany_def filter_empty_conv)

lemma updateMany_hit_nth:
  assumes "fst (seat_updateMany wh data rows) \<noteq> 0"
  shows "\<exists>i < length rows. wh (rows ! i) \<and> snd (seat_updateMany wh data rows) ! i = data (rows ! i)"
proof -
  from updateMany_hit[OF assms] obtain r where "r \<in> set rows" "wh r" by blast
  then obtain i where "i < length rows" "rows ! i = r" by (auto simp: in_set_conv_nth)
  with \<open>wh r\<close> show ?thesis by (auto simp: seat_updateMany_def)
qed

lemma updateMany_nth:
  "i < length rows \<Longrightarrow> wh (rows ! i) \<Longrightarrow> snd (seat_updateMany wh data rows) ! i = data (rows ! i)"
  by (simp add: seat_updateMany_def)

lemma createBookingTx_at_Inl: "isl (fst (createBookingTx_at input newId now db0 db)) \<Longrightarrow>
   snd (createBookingTx_at input newId now db0 db) = db"
  by (auto simp: createBookingTx_at_eq case_prod_beta split: sum.splits)

lemma holdSeat_at_Inl: "isl (fst (holdSeat_at sid now ttl db0 db)) \<Longrightarrow>
   snd (holdSeat_at sid now ttl db0 db) = db"
  by (auto simp: holdSeat_at_def holdSeat_write_def Let_def case_prod_beta updateMany_none
      split: sum.splits if_splits)

lemma createBookingTx_at_hit:
  assumes "fst (createBookingTx_at input newId now db0 db) = Inr b"
  shows "\<exists>i < length (seats db). seat_id (seats db ! i) = input_seatId input \<and>
           seats (snd (createBookingTx_at input newId now db0 db)) ! i =
             (seats db ! i)\<lparr> status := BOOKED, holdExpiresAt := None, version := version (seats db ! i) + 1 \<rparr>"
proof -
  from assms obtain seat where rd: "createBooking_read (seats db0) (input_seatId input) now = Inr seat"
    by (auto simp: createBookingTx_at_eq case_prod_beta split: sum.splits)
  let ?wh = "\<lambda>r. seat_id r = seat_id seat \<and> version r = version seat"
  let ?data = "\<lambda>r. r\<lparr> status := BOOKED, holdExpiresAt := None, version := version r + 1 \<rparr>"
  from assms rd have cnt: "fst (seat_updateMany ?wh ?data (seats db)) \<noteq> 0"
    and eq: "seats (snd (createBookingTx_at input newId now db0 db)) = snd (seat_updateMany ?wh ?data (seats db))"
    by (auto simp: createBookingTx_at_eq createBooking_write_def Let_def case_prod_beta
        split: sum.splits if_splits)
  from updateMany_hit_nth[OF cnt] createBooking_read_Inr[OF rd] eq show ?thesis by auto
qed

lemma holdSeat_at_hit:
  assumes "fst (holdSeat_at sid now ttl db0 db) = Inr s"
  shows "\<exists>i < length (seats db). seat_id (seats db ! i) = sid \<and>
           seats (snd (holdSeat_at sid now ttl db0 db)) ! i =
             (seats db ! i)\<lparr> status := HOLD, holdExpiresAt := Some (now + ttl), version := version (seats db ! i) + 1 \<rparr>"
proof -
  from assms obtain seat where rd: "holdSeat_read (seats db0) sid now = Inr seat"
    by (auto simp: holdSeat_at_def split: sum.splits)
  let ?wh = "\<lambda>r. seat_id r = seat_id seat \<and> version r = version seat"
  let ?data = "\<lambda>r. r\<lparr> status := HOLD, holdExpiresAt := Some (now + ttl), version := version r + 1 \<rparr>"
  from assms rd have cnt: "fst (seat_updateMany ?wh ?data (seats db)) \<noteq> 0"
    and eq: "seats (snd (holdSeat_at sid now ttl db0 db)) = snd (seat_updateMany ?wh ?data (seats db))"
    by (auto simp: holdSeat_at_def holdSeat_write_def Let_def case_prod_beta split: sum.splits if_splits)
  from updateMany_hit_nth[OF cnt] holdSeat_read_Inr[OF rd] eq show ?thesis by auto
qed

text \<open>
  C8. For each operation that writes seat state (reserve, hold, hold reaper,
  booking-expiry reaper), with any earlier read: every seat row is afterwards either
  untouched or has its version increased by exactly one; an operation that is rejected or
  fails leaves the whole store, and so every version, unchanged; a reserve or hold that
  succeeds has increased the version of its seat by one; and each reaper has increased by
  one the version of every row it releases.
\<close>

theorem version_monotonicity:
  assumes "exec x db past = (res, db')"
  shows "list_all2 bumped (seats db) (seats db')
     \<and> (isl res \<longrightarrow> db' = db)
     \<and> (\<forall>input newId now k. x = Reserve input newId now k \<and> \<not> isl res \<longrightarrow>
          (\<exists>i < length (seats db). seat_id (seats db ! i) = input_seatId input
             \<and> version (seats db' ! i) = version (seats db ! i) + 1))
     \<and> (\<forall>sid now ttl k. x = HoldSeat sid now ttl k \<and> \<not> isl res \<longrightarrow>
          (\<exists>i < length (seats db). seat_id (seats db ! i) = sid
             \<and> version (seats db' ! i) = version (seats db ! i) + 1))
     \<and> (\<forall>now i t. x = ReleaseExpiredHolds now \<and> i < length (seats db) \<and> status (seats db ! i) = HOLD
             \<and> holdExpiresAt (seats db ! i) = Some t \<and> t < now \<longrightarrow>
          version (seats db' ! i) = version (seats db ! i) + 1)
     \<and> (\<forall>now i b. x = ExpireBookings now \<and> i < length (seats db) \<and> status (seats db ! i) = BOOKED
             \<and> b \<in> set (bookings db) \<and> booking_expired now b \<and> seatId b = seat_id (seats db ! i) \<longrightarrow>
          version (seats db' ! i) = version (seats db ! i) + 1)"
proof (intro conjI allI impI)
  show "list_all2 bumped (seats db) (seats db')"
    using exec_bumped[of db x past] assms by simp
next
  assume "isl res"
  with assms show "db' = db"
    using createBookingTx_at_Inl holdSeat_at_Inl
    by (cases x) (auto simp: case_prod_beta expireBookings_eq Let_def
        split: sum.splits prod.splits if_splits)
next
  fix input newId now k assume a: "x = Reserve input newId now k \<and> \<not> isl res"
  with assms obtain b where "fst (createBookingTx_at input newId now (read_state db past k) db) = Inr b"
    and "db' = snd (createBookingTx_at input newId now (read_state db past k) db)"
    by (auto simp: case_prod_beta split: sum.splits)
  with createBookingTx_at_hit[of input newId now "read_state db past k" db b]
  show "\<exists>i<length (seats db). seat_id (seats db ! i) = input_seatId input \<and>
          version (seats db' ! i) = version (seats db ! i) + 1"
    by auto
next
  fix sid now ttl k assume a: "x = HoldSeat sid now ttl k \<and> \<not> isl res"
  with assms obtain s where "fst (holdSeat_at sid now ttl (read_state db past k) db) = Inr s"
    and "db' = snd (holdSeat_at sid now ttl (read_state db past k) db)"
    by (auto simp: case_prod_beta split: sum.splits)
  with holdSeat_at_hit[of sid now ttl "read_state db past k" db s]
  show "\<exists>i<length (seats db). seat_id (seats db ! i) = sid \<and>
          version (seats db' ! i) = version (seats db ! i) + 1"
    by auto
next
  fix now i t
  assume a: "x = ReleaseExpiredHolds now \<and> i < length (seats db) \<and> status (seats db ! i) = HOLD
             \<and> holdExpiresAt (seats db ! i) = Some t \<and> t < now"
  with assms have "seats db' = snd (seat_updateMany
              (\<lambda>r. status r = HOLD \<and> (case holdExpiresAt r of None \<Rightarrow> False | Some t \<Rightarrow> t < now))
              (\<lambda>r. r\<lparr> status := AVAILABLE, holdExpiresAt := None, version := version r + 1 \<rparr>)
              (seats db))"
    by (auto simp: releaseExpiredHolds_def Let_def case_prod_beta)
  with a show "version (seats db' ! i) = version (seats db ! i) + 1"
    by (simp add: updateMany_nth)
next
  fix now i b
  assume a: "x = ExpireBookings now \<and> i < length (seats db) \<and> status (seats db ! i) = BOOKED
             \<and> b \<in> set (bookings db) \<and> booking_expired now b \<and> seatId b = seat_id (seats db ! i)"
  then have ne: "filter (booking_expired now) (bookings db) \<noteq> []"
    by (auto simp: filter_empty_conv)
  with a assms have "seats db' = snd (seat_updateMany
              (\<lambda>r. seat_id r \<in> set (map seatId (filter (booking_expired now) (bookings db))) \<and> status r = BOOKED)
              (\<lambda>r. r\<lparr> status := AVAILABLE, version := version r + 1 \<rparr>)
              (seats db))"
    by (auto simp: expireBookings_eq Let_def case_prod_beta)
  moreover from a have "seat_id (seats db ! i) \<in> set (map seatId (filter (booking_expired now) (bookings db)))"
    by force
  ultimately show "version (seats db' ! i) = version (seats db ! i) + 1"
    using a by (simp add: updateMany_nth)
qed

theorem version_monotonicity_witness:
  "exec (HoldSeat ''s1'' 1000 500 0)
        \<lparr> seats = [\<lparr> seat_id = ''s1'', status = AVAILABLE, version = 7, holdExpiresAt = None \<rparr>,
                   \<lparr> seat_id = ''s2'', status = BOOKED, version = 2, holdExpiresAt = None \<rparr>],
          bookings = [] \<rparr> []
     = (Inr (Held (Some \<lparr> seat_id = ''s1'', status = HOLD, version = 8, holdExpiresAt = Some 1500 \<rparr>)),
        \<lparr> seats = [\<lparr> seat_id = ''s1'', status = HOLD, version = 8, holdExpiresAt = Some 1500 \<rparr>,
                   \<lparr> seat_id = ''s2'', status = BOOKED, version = 2, holdExpiresAt = None \<rparr>],
          bookings = [] \<rparr>)
   \<and> list_all2 bumped
        [\<lparr> seat_id = ''s1'', status = AVAILABLE, version = 7, holdExpiresAt = None \<rparr>,
         \<lparr> seat_id = ''s2'', status = BOOKED, version = 2, holdExpiresAt = None \<rparr>]
        [\<lparr> seat_id = ''s1'', status = HOLD, version = 8, holdExpiresAt = Some 1500 \<rparr>,
         \<lparr> seat_id = ''s2'', status = BOOKED, version = 2, holdExpiresAt = None \<rparr>]
   \<and> exec (HoldSeat ''s2'' 1000 500 0)
        \<lparr> seats = [\<lparr> seat_id = ''s1'', status = AVAILABLE, version = 7, holdExpiresAt = None \<rparr>,
                   \<lparr> seat_id = ''s2'', status = BOOKED, version = 2, holdExpiresAt = None \<rparr>],
          bookings = [] \<rparr> []
     = (Inl (ConflictException ''Seat already booked''),
        \<lparr> seats = [\<lparr> seat_id = ''s1'', status = AVAILABLE, version = 7, holdExpiresAt = None \<rparr>,
                   \<lparr> seat_id = ''s2'', status = BOOKED, version = 2, holdExpiresAt = None \<rparr>],
          bookings = [] \<rparr>)"
proof -
  let ?db = "\<lparr> seats = [\<lparr> seat_id = ''s1'', status = AVAILABLE, version = 7, holdExpiresAt = None \<rparr>,
                   \<lparr> seat_id = ''s2'', status = BOOKED, version = 2, holdExpiresAt = None \<rparr>],
          bookings = [] \<rparr>"
  let ?db' = "\<lparr> seats = [\<lparr> seat_id = ''s1'', status = HOLD, version = 8, holdExpiresAt = Some 1500 \<rparr>,
                   \<lparr> seat_id = ''s2'', status = BOOKED, version = 2, holdExpiresAt = None \<rparr>],
          bookings = [] \<rparr>"
  have 1: "exec (HoldSeat ''s1'' 1000 500 0) ?db []
           = (Inr (Held (Some \<lparr> seat_id = ''s1'', status = HOLD, version = 8, holdExpiresAt = Some 1500 \<rparr>)), ?db')"
    by (simp add: db_eval)
  have 2: "exec (HoldSeat ''s2'' 1000 500 0) ?db [] = (Inl (ConflictException ''Seat already booked''), ?db)"
    by (simp add: db_eval)
  from version_monotonicity[OF 1] version_monotonicity[OF 2] 1 2 show ?thesis by simp
qed

subsection \<open>No double booking\<close>



























subsection \<open>The reserve transaction\<close>

lemma filter_guard_empty:
  "(filter wh rows = []) = (\<not> (\<exists>r \<in> set rows. wh r))"
  by (simp add: filter_empty_conv)

text \<open>
  C2, as amended. Let the seat be found, and let no booking carry the idempotency key yet.
  Then the reserve transaction does this: a BOOKED seat fails with the already-booked
  conflict; a HOLD seat whose \<open>holdExpiresAt\<close> is null or strictly after \<open>now\<close> fails with
  the on-hold conflict; otherwise, if no row has the id and the version that were read, it
  fails with the version-mismatch conflict and nothing is written; otherwise the CONFIRMED
  booking with the idempotency key is appended and the matching row is BOOKED, without
  \<open>holdExpiresAt\<close>, its version one higher. Every failure leaves the store as it was.
  The earlier transaction of \<open>booking.service.ts\<close> does the same when, also at its
  read, no booking carries the key.
\<close>

theorem createBookingTx_behaviour:
  assumes found: "seat_findUnique (seats db0) (input_seatId input) = Some seat"
    and fresh: "\<forall>b \<in> set (bookings db). idempotencyKey b \<noteq> input_idempotencyKey input"
  shows
   "createBookingTx_at input newId now db0 db =
      (let booking = \<lparr> booking_id = newId, seatId = input_seatId input,
                        userId = input_userId input, booking_status = CONFIRMED,
                        idempotencyKey = input_idempotencyKey input, expiresAt = None \<rparr>
       in if status seat = BOOKED
            then (Inl (ConflictException ''Seat already booked''), db)
          else if status seat = HOLD \<and> (case holdExpiresAt seat of None \<Rightarrow> True | Some t \<Rightarrow> now < t)
            then (Inl (ConflictException ''Seat currently on hold''), db)
          else if \<not> (\<exists>r \<in> set (seats db). seat_id r = seat_id seat \<and> version r = version seat)
            then (Inl (ConflictException ''Seat changed during booking''), db)
          else (Inr (booking, 201),
                \<lparr> seats = map (\<lambda>r. if seat_id r = seat_id seat \<and> version r = version seat
                                   then r\<lparr> status := BOOKED, holdExpiresAt := None,
                                           version := version r + 1 \<rparr>
                                   else r) (seats db),
                  bookings = bookings db @ [booking] \<rparr>))
    \<and> ((\<forall>b \<in> set (bookings db0). idempotencyKey b \<noteq> input_idempotencyKey input) \<longrightarrow>
         createBookingTx_legacy_at input newId now db0 db =
           (map_sum id fst (fst (createBookingTx_at input newId now db0 db)),
            snd (createBookingTx_at input newId now db0 db)))"
proof -
  have nokey: "\<not> (\<exists>r \<in> set (bookings db). idempotencyKey r = input_idempotencyKey input)"
    using fresh by blast
  have 1: "createBookingTx_at input newId now db0 db = (let booking = \<lparr> booking_id = newId, seatId = input_seatId input,
                        userId = input_userId input, booking_status = CONFIRMED,
                        idempotencyKey = input_idempotencyKey input, expiresAt = None \<rparr>
       in if status seat = BOOKED
            then (Inl (ConflictException ''Seat already booked''), db)
          else if status seat = HOLD \<and> (case holdExpiresAt seat of None \<Rightarrow> True | Some t \<Rightarrow> now < t)
            then (Inl (ConflictException ''Seat currently on hold''), db)
          else if \<not> (\<exists>r \<in> set (seats db). seat_id r = seat_id seat \<and> version r = version seat)
            then (Inl (ConflictException ''Seat changed during booking''), db)
          else (Inr (booking, 201),
                \<lparr> seats = map (\<lambda>r. if seat_id r = seat_id seat \<and> version r = version seat
                                   then r\<lparr> status := BOOKED, holdExpiresAt := None,
                                           version := version r + 1 \<rparr>
                                   else r) (seats db),
                  bookings = bookings db @ [booking] \<rparr>))"
    using found nokey
    by (auto simp: createBookingTx_at_eq createBooking_read_def
        createBooking_write_def booking_create_def seat_updateMany_def holdExpired_def Let_def
        filter_guard_empty split: option.splits)
  have 2: "(\<forall>b \<in> set (bookings db0). idempotencyKey b \<noteq> input_idempotencyKey input) \<longrightarrow>
         createBookingTx_legacy_at input newId now db0 db =
           (map_sum id fst (fst (createBookingTx_at input newId now db0 db)),
            snd (createBookingTx_at input newId now db0 db))"
  proof
    assume "\<forall>b \<in> set (bookings db0). idempotencyKey b \<noteq> input_idempotencyKey input"
    then have "find (\<lambda>b. idempotencyKey b = input_idempotencyKey input) (bookings db0) = None"
      by (simp add: find_None_iff)
    then show "createBookingTx_legacy_at input newId now db0 db =
           (map_sum id fst (fst (createBookingTx_at input newId now db0 db)),
            snd (createBookingTx_at input newId now db0 db))"
      by (auto simp: createBookingTx_legacy_at_def runInTransaction_def prisma_transaction_def createBookingTx_at_eq
          case_prod_beta split: sum.splits prod.splits)
  qed
  from 1 2 show ?thesis by blast
qed

theorem createBookingTx_behaviour_witness:
  "seat_findUnique [\<lparr> seat_id = ''s1'', status = HOLD, version = 3, holdExpiresAt = Some 900 \<rparr>] ''s1''
     = Some \<lparr> seat_id = ''s1'', status = HOLD, version = 3, holdExpiresAt = Some 900 \<rparr>
   \<and> createBookingTx_at \<lparr> input_seatId = ''s1'', input_userId = ''u1'', input_idempotencyKey = ''k1'' \<rparr>
        ''b1'' 1000
        \<lparr> seats = [\<lparr> seat_id = ''s1'', status = HOLD, version = 3, holdExpiresAt = Some 900 \<rparr>],
          bookings = [] \<rparr>
        \<lparr> seats = [\<lparr> seat_id = ''s1'', status = HOLD, version = 3, holdExpiresAt = Some 900 \<rparr>],
          bookings = [] \<rparr>
      = (Inr (\<lparr> booking_id = ''b1'', seatId = ''s1'', userId = ''u1'', booking_status = CONFIRMED,
                 idempotencyKey = ''k1'', expiresAt = None \<rparr>, 201),
         \<lparr> seats = [\<lparr> seat_id = ''s1'', status = BOOKED, version = 4, holdExpiresAt = None \<rparr>],
           bookings = [\<lparr> booking_id = ''b1'', seatId = ''s1'', userId = ''u1'',
                         booking_status = CONFIRMED, idempotencyKey = ''k1'', expiresAt = None \<rparr>] \<rparr>)
   \<and> createBookingTx_at \<lparr> input_seatId = ''s1'', input_userId = ''u1'', input_idempotencyKey = ''k1'' \<rparr>
        ''b1'' 1000
        \<lparr> seats = [\<lparr> seat_id = ''s1'', status = HOLD, version = 3, holdExpiresAt = Some 900 \<rparr>],
          bookings = [] \<rparr>
        \<lparr> seats = [\<lparr> seat_id = ''s1'', status = AVAILABLE, version = 4, holdExpiresAt = None \<rparr>],
          bookings = [] \<rparr>
      = (Inl (ConflictException ''Seat changed during booking''),
         \<lparr> seats = [\<lparr> seat_id = ''s1'', status = AVAILABLE, version = 4, holdExpiresAt = None \<rparr>],
           bookings = [] \<rparr>)"
proof -
  let ?seat = "\<lparr> seat_id = ''s1'', status = HOLD, version = 3, holdExpiresAt = Some 900 \<rparr>"
  let ?input = "\<lparr> input_seatId = ''s1'', input_userId = ''u1'', input_idempotencyKey = ''k1'' \<rparr>"
  let ?db0 = "\<lparr> seats = [?seat], bookings = [] \<rparr>"
  let ?db1 = "\<lparr> seats = [\<lparr> seat_id = ''s1'', status = AVAILABLE, version = 4, holdExpiresAt = None \<rparr>],
                bookings = [] \<rparr>"
  have found: "seat_findUnique (seats ?db0) (input_seatId ?input) = Some ?seat"
    by (simp add: seat_findUnique_def)
  have f0: "\<forall>b \<in> set (bookings ?db0). idempotencyKey b \<noteq> input_idempotencyKey ?input" by simp
  have f1: "\<forall>b \<in> set (bookings ?db1). idempotencyKey b \<noteq> input_idempotencyKey ?input" by simp
  from createBookingTx_behaviour[OF found f0, of "''b1''" 1000]
    createBookingTx_behaviour[OF found f1, of "''b1''" 1000] found
  show ?thesis by (simp add: Let_def)
qed

text \<open>
  C2 as stated fails at two inputs. A hold that ends exactly at \<open>now\<close> is not in the past,
  yet the source tests \<open>holdExpiresAt <= now\<close> and books the seat. And when a booking
  already carries the idempotency key, a free seat is not booked: the insert is refused
  by the unique index and the transaction fails.
\<close>

theorem reserve_boundary_counterexample:
  "status \<lparr> seat_id = ''s1'', status = HOLD, version = 3, holdExpiresAt = Some 1000 \<rparr> = HOLD
   \<and> \<not> (1000 < (1000::int))
   \<and> fst (createBookingTx \<lparr> input_seatId = ''s1'', input_userId = ''u1'', input_idempotencyKey = ''k1'' \<rparr>
            ''b1'' 1000
            \<lparr> seats = [\<lparr> seat_id = ''s1'', status = HOLD, version = 3, holdExpiresAt = Some 1000 \<rparr>],
              bookings = [] \<rparr>)
       = Inr (\<lparr> booking_id = ''b1'', seatId = ''s1'', userId = ''u1'', booking_status = CONFIRMED,
                 idempotencyKey = ''k1'', expiresAt = None \<rparr>, 201)
   \<and> createBookingTx \<lparr> input_seatId = ''s2'', input_userId = ''u1'', input_idempotencyKey = ''k1'' \<rparr>
            ''b2'' 1000
            \<lparr> seats = [\<lparr> seat_id = ''s2'', status = AVAILABLE, version = 0, holdExpiresAt = None \<rparr>],
              bookings = [\<lparr> booking_id = ''b1'', seatId = ''s1'', userId = ''u1'',
                            booking_status = EXPIRED, idempotencyKey = ''k1'', expiresAt = Some 5 \<rparr>] \<rparr>
       = (Inl (UniqueConstraintViolation ''idempotencyKey''),
            \<lparr> seats = [\<lparr> seat_id = ''s2'', status = AVAILABLE, version = 0, holdExpiresAt = None \<rparr>],
              bookings = [\<lparr> booking_id = ''b1'', seatId = ''s1'', userId = ''u1'',
                            booking_status = EXPIRED, idempotencyKey = ''k1'', expiresAt = Some 5 \<rparr>] \<rparr>)"
  by (simp add: db_eval)

subsection \<open>The idempotency coordinator\<close>

lemmas idem_eval = checkOrCreate_def runInTransaction_def prisma_transaction_def record_findUnique_def
  record_create_def record_update_def Let_def

text \<open>
  C6. For a key whose record is SUCCESS with the hash of the request: \<open>checkOrCreate\<close>
  answers from the record alone. If the record has no response data (null or empty) or no
  status code, the call fails with the internal error \<open>Cached response missing\<close>;
  otherwise the answer is the stored text, parsed, with the stored status code, marked as
  a duplicate. In every case the records and the world are unchanged and the answer does
  not depend on \<open>work\<close>: it is not run.
\<close>

theorem checkOrCreate_replays_success:
  assumes "key \<noteq> []"
    and "record_findUnique records key = Some existing"
    and "state existing = SUCCESS"
    and "requestHash existing = Some (hashRequest svc payload)"
  shows "checkOrCreate svc now doneAt key payload work records w =
           ((if responseData existing = None \<or> responseData existing = Some []
                \<or> statusCode existing = None
             then Inl (InternalServerErrorException ''Cached response missing'')
             else case parse svc (the (responseData existing)) of
                    None \<Rightarrow> Inl (SyntaxError ''JSON.parse'')
                  | Some v \<Rightarrow> Inr \<lparr> isDuplicate = True, cachedResponse = v,
                                   result_statusCode = the (statusCode existing) \<rparr>),
            records, w)"
  using assms
  by (auto simp: checkOrCreate_def Let_def runInTransaction_def prisma_transaction_def
      split: option.splits)

theorem checkOrCreate_replays_success_witness:
  "record_findUnique
      [\<lparr> record_key = ''k1'', state = SUCCESS, requestHash = Some ''s1:u1'',
         responseData = Some ''booking-b1'', statusCode = Some 201, createdAt = 0, updatedAt = 40,
         record_expiresAt = 300000 \<rparr>] ''k1''
     = Some \<lparr> record_key = ''k1'', state = SUCCESS, requestHash = Some ''s1:u1'',
         responseData = Some ''booking-b1'', statusCode = Some 201, createdAt = 0, updatedAt = 40,
         record_expiresAt = 300000 \<rparr>
   \<and> checkOrCreate \<lparr> service_ttlMs = 300000, hashRequest = (\<lambda>p. p), stringify = (\<lambda>d. d),
                       parse = (\<lambda>t. Some t) \<rparr>
        1000 1500 ''k1'' ''s1:u1''
        (\<lambda>w. (Inl (ConflictException ''Seat already booked''), Suc w))
        [\<lparr> record_key = ''k1'', state = SUCCESS, requestHash = Some ''s1:u1'',
           responseData = Some ''booking-b1'', statusCode = Some 201, createdAt = 0, updatedAt = 40,
           record_expiresAt = 300000 \<rparr>] (0::nat)
     = (Inr \<lparr> isDuplicate = True, cachedResponse = ''booking-b1'', result_statusCode = 201 \<rparr>,
        [\<lparr> record_key = ''k1'', state = SUCCESS, requestHash = Some ''s1:u1'',
           responseData = Some ''booking-b1'', statusCode = Some 201, createdAt = 0, updatedAt = 40,
           record_expiresAt = 300000 \<rparr>], 0)
   \<and> fst (checkOrCreate \<lparr> service_ttlMs = 300000, hashRequest = (\<lambda>p. p), stringify = (\<lambda>d. d),
                       parse = (\<lambda>t. Some t) \<rparr>
        1000 1500 ''k1'' ''s1:u1''
        (\<lambda>w. (Inl (ConflictException ''Seat already booked''), Suc w))
        [\<lparr> record_key = ''k1'', state = SUCCESS, requestHash = Some ''s1:u1'',
           responseData = None, statusCode = Some 201, createdAt = 0, updatedAt = 40,
           record_expiresAt = 300000 \<rparr>] (0::nat))
     = Inl (InternalServerErrorException ''Cached response missing'')"
proof -
  let ?svc = "\<lparr> service_ttlMs = 300000, hashRequest = (\<lambda>p. p), stringify = (\<lambda>d. d),
                       parse = (\<lambda>t. Some t) \<rparr> :: (string, string) IdempotencyService"
  let ?row = "\<lparr> record_key = ''k1'', state = SUCCESS, requestHash = Some ''s1:u1'',
         responseData = Some ''booking-b1'', statusCode = Some 201, createdAt = 0, updatedAt = 40,
         record_expiresAt = 300000 \<rparr>"
  let ?bad = "\<lparr> record_key = ''k1'', state = SUCCESS, requestHash = Some ''s1:u1'',
         responseData = None, statusCode = Some 201, createdAt = 0, updatedAt = 40,
         record_expiresAt = 300000 \<rparr>"
  have k: "''k1'' \<noteq> []" by simp
  have f: "record_findUnique [?row] ''k1'' = Some ?row" by (simp add: record_findUnique_def)
  have fb: "record_findUnique [?bad] ''k1'' = Some ?bad" by (simp add: record_findUnique_def)
  have s: "state ?row = SUCCESS" "state ?bad = SUCCESS" by simp_all
  have h: "requestHash ?row = Some (hashRequest ?svc ''s1:u1'')"
    "requestHash ?bad = Some (hashRequest ?svc ''s1:u1'')" by simp_all
  from checkOrCreate_replays_success[OF k f s(1) h(1), of 1000 1500
      "\<lambda>w. (Inl (ConflictException ''Seat already booked''), Suc w)" "0::nat"]
    checkOrCreate_replays_success[OF k fb s(2) h(2), of 1000 1500
      "\<lambda>w. (Inl (ConflictException ''Seat already booked''), Suc w)" "0::nat"] f
  show ?thesis by simp
qed

lemma find_after_miss:
  "\<not> (\<exists>r \<in> set rows. P r) \<Longrightarrow> P row \<Longrightarrow> find P (rows @ [row]) = Some row"
  by (induction rows) auto

lemma replay_after_success:
  assumes key: "key \<noteq> []" and fresh: "record_findUnique records key = None"
    and ok: "work w = (Inr (Some (d, c)), w')"
    and json: "stringify svc d \<noteq> []" "parse svc (stringify svc d) = Some d"
    and first: "checkOrCreate svc now doneAt key payload work records w = (r1, records1, w1)"
  shows "r1 = Inr \<lparr> isDuplicate = False, cachedResponse = d, result_statusCode = c \<rparr>
       \<and> w1 = w'
       \<and> checkOrCreate svc now2 doneAt2 key payload work2 records1 w1 =
           (Inr \<lparr> isDuplicate = True, cachedResponse = d, result_statusCode = c \<rparr>, records1, w1)"
proof -
  let ?row = "\<lparr> record_key = key, state = SUCCESS, requestHash = Some (hashRequest svc payload),
                responseData = Some (stringify svc d), statusCode = Some c, createdAt = now,
                updatedAt = doneAt, record_expiresAt = now + service_ttlMs svc \<rparr>"
  from fresh have nk: "\<not> (\<exists>r \<in> set records. record_key r = key)"
    by (auto simp: record_findUnique_def find_None_iff)
  then have same: "map (\<lambda>r. if record_key r = key then f r else r) records = records" for f
    by (induction records) auto
  from first key fresh ok nk same
  have 1: "r1 = Inr \<lparr> isDuplicate = False, cachedResponse = d, result_statusCode = c \<rparr>"
    "w1 = w'" "records1 = records @ [?row]"
    by (auto simp: checkOrCreate_def Let_def runInTransaction_def prisma_transaction_def
        record_create_def record_update_def)
  have found: "record_findUnique records1 key = Some ?row"
    using nk by (simp add: 1 record_findUnique_def find_after_miss)
  have "checkOrCreate svc now2 doneAt2 key payload work2 records1 w1 =
           (Inr \<lparr> isDuplicate = True, cachedResponse = d, result_statusCode = c \<rparr>, records1, w1)"
    using key found json
    by (simp add: checkOrCreate_def Let_def runInTransaction_def prisma_transaction_def)
  with 1 show ?thesis by simp
qed

lemma prisma_transaction_rolls_back:
  "isl (fst (prisma_transaction callback s w)) \<Longrightarrow> fst (snd (prisma_transaction callback s w)) = s"
  by (auto simp: prisma_transaction_def split: prod.splits sum.splits)

lemma checkOrCreate_failure_keeps_records:
  "isl (fst (checkOrCreate svc now doneAt key payload work records w)) \<Longrightarrow>
     fst (snd (checkOrCreate svc now doneAt key payload work records w)) = records"
proof (cases "key = []")
  case True
  then show ?thesis by (simp add: checkOrCreate_def)
next
  case False
  assume "isl (fst (checkOrCreate svc now doneAt key payload work records w))"
  with False show ?thesis
    unfolding checkOrCreate_def Let_def runInTransaction_def
    by (simp only: if_False prisma_transaction_rolls_back)
qed

text \<open>
  C3 does not hold of the source. For every fresh key whose \<open>work\<close> fails, the failure
  is handed on unchanged and the world is the one \<open>work\<close> left, but the table of
  records is as before the call: no record of the key exists afterwards. The FAILED
  update of the \<open>finally\<close> block is made inside the transaction that the failure then
  rolls back, together with the insert of the record.
\<close>

theorem failed_work_is_rolled_back:
  assumes "key \<noteq> []" and "record_findUnique records key = None" and "work w = (Inl e, w')"
  shows "checkOrCreate svc now doneAt key payload work records w = (Inl e, records, w')
       \<and> record_findUnique (fst (snd (checkOrCreate svc now doneAt key payload work records w))) key
           = None"
proof -
  from assms(2) have nk: "\<not> (\<exists>r \<in> set records. record_key r = key)"
    by (auto simp: record_findUnique_def find_None_iff)
  from assms nk have "checkOrCreate svc now doneAt key payload work records w = (Inl e, records, w')"
    by (simp add: checkOrCreate_def Let_def runInTransaction_def prisma_transaction_def
        record_create_def record_update_def)
  with assms(2) show ?thesis by simp
qed

text \<open>
  An empty table, the key \<open>k1\<close> and a \<open>work\<close> that throws the already-booked conflict:
  the conflict comes back, \<open>work\<close> has run once, and the table is still empty.
\<close>

theorem failed_work_leaves_no_record:
  "record_findUnique [] ''k1'' = None
   \<and> checkOrCreate \<lparr> service_ttlMs = 300000, hashRequest = (\<lambda>p. p), stringify = (\<lambda>d. d),
                   parse = (\<lambda>t. Some t) \<rparr>
      1000 1500 ''k1'' ''s1:u1''
      (\<lambda>w. (Inl (ConflictException ''Seat already booked''), Suc w)) [] (0::nat)
   = (Inl (ConflictException ''Seat already booked'') :: error + string IdempotencyResult, [], 1)"
proof -
  have k: "''k1'' \<noteq> []" by simp
  have n: "record_findUnique [] ''k1'' = None" by (simp add: record_findUnique_def)
  from failed_work_is_rolled_back[where key = "''k1''" and records = "[]"
      and work = "\<lambda>w. (Inl (ConflictException ''Seat already booked''), Suc w)" and w = "0::nat"
      and e = "ConflictException ''Seat already booked''" and w' = 1
      and svc = "\<lparr> service_ttlMs = 300000, hashRequest = (\<lambda>p. p), stringify = (\<lambda>d. d),
                    parse = (\<lambda>t. Some t) \<rparr>"
      and now = 1000 and doneAt = 1500 and payload = "''s1:u1''"] k n
  show ?thesis by simp
qed

text \<open>
  C4 does not hold of the source, for the same reason. For every IN_PROGRESS record older
  than the TTL, the caller fails with \<open>Previous request timed out\<close> and the update to
  FAILED is rolled back with it: the records are as before, so every later caller with the
  same key and hash meets the same branch again and never the FAILED one.
\<close>

theorem stale_in_progress_is_rolled_back:
  assumes "key \<noteq> []" and "record_findUnique records key = Some existing"
    and "state existing = IN_PROGRESS"
    and "requestHash existing = Some (hashRequest svc payload)"
    and "service_ttlMs svc < now - createdAt existing"
  shows "checkOrCreate svc now doneAt key payload work records w
           = (Inl (ConflictException ''Previous request timed out''), records, w)
       \<and> (\<forall>later doneAt' work'. now \<le> later \<longrightarrow>
             checkOrCreate svc later doneAt' key payload work' records w
               = (Inl (ConflictException ''Previous request timed out''), records, w))"
proof -
  have "checkOrCreate svc later doneAt' key payload work' records w
          = (Inl (ConflictException ''Previous request timed out''), records, w)"
    if "now \<le> later" for later doneAt' and work' :: "'c \<Rightarrow> (error + ('b \<times> int) option) \<times> 'c"
  proof -
    from assms(2) have "\<exists>r \<in> set records. record_key r = key"
      by (auto simp: record_findUnique_def find_Some_iff)
    moreover from that assms(5) have "service_ttlMs svc < later - createdAt existing" by simp
    ultimately show ?thesis
      using assms(1-4)
      by (simp add: checkOrCreate_def Let_def runInTransaction_def prisma_transaction_def
          record_update_def)
  qed
  from this[of now doneAt work] this show ?thesis by simp
qed

text \<open>
  A record created at 0 with a TTL of 300000, and a call at 400000.
\<close>

theorem stale_in_progress_stays_in_progress:
  "record_findUnique
      [\<lparr> record_key = ''k1'', state = IN_PROGRESS, requestHash = Some ''s1:u1'',
         responseData = None, statusCode = None, createdAt = 0, updatedAt = 0,
         record_expiresAt = 300000 \<rparr>] ''k1''
     = Some \<lparr> record_key = ''k1'', state = IN_PROGRESS, requestHash = Some ''s1:u1'',
         responseData = None, statusCode = None, createdAt = 0, updatedAt = 0,
         record_expiresAt = 300000 \<rparr>
   \<and> checkOrCreate \<lparr> service_ttlMs = 300000, hashRequest = (\<lambda>p. p), stringify = (\<lambda>d. d),
                   parse = (\<lambda>t. Some t) \<rparr>
      400000 400500 ''k1'' ''s1:u1''
      (\<lambda>w. (Inr (Some (''booking'', 201)), Suc w))
      [\<lparr> record_key = ''k1'', state = IN_PROGRESS, requestHash = Some ''s1:u1'',
         responseData = None, statusCode = None, createdAt = 0, updatedAt = 0,
         record_expiresAt = 300000 \<rparr>] (0::nat)
   = (Inl (ConflictException ''Previous request timed out''),
      [\<lparr> record_key = ''k1'', state = IN_PROGRESS, requestHash = Some ''s1:u1'',
         responseData = None, statusCode = None, createdAt = 0, updatedAt = 0,
         record_expiresAt = 300000 \<rparr>], 0)"
proof -
  let ?svc = "\<lparr> service_ttlMs = 300000, hashRequest = (\<lambda>p. p), stringify = (\<lambda>d. d),
                parse = (\<lambda>t. Some t) \<rparr> :: (string, string) IdempotencyService"
  let ?row = "\<lparr> record_key = ''k1'', state = IN_PROGRESS, requestHash = Some ''s1:u1'',
         responseData = None, statusCode = None, createdAt = 0, updatedAt = 0,
         record_expiresAt = 300000 \<rparr>"
  have k: "''k1'' \<noteq> []" by simp
  have f: "record_findUnique [?row] ''k1'' = Some ?row" by (simp add: record_findUnique_def)
  have s: "state ?row = IN_PROGRESS" by simp
  have h: "requestHash ?row = Some (hashRequest ?svc ''s1:u1'')" by simp
  have a: "service_ttlMs ?svc < 400000 - createdAt ?row" by simp
  from stale_in_progress_is_rolled_back[OF k f s h a, of 400500
      "\<lambda>w. (Inr (Some (''booking'', 201)), Suc w)" "0::nat"] f
  show ?thesis by simp
qed

subsection \<open>The configuration accessor\<close>

text \<open>
  C9, as amended. \<open>envNumber\<close> differs from the default only when the variable is set and
  converts to a finite number above zero, which is then the result; an unset variable, and
  one that converts to NaN, an infinity, zero or a negative number, give the default. So
  a knob whose default is a positive number never resolves to anything but a positive
  number, and every default in the repository is positive.
\<close>

theorem envNumber_resolution:
  "(envNumber Number env key d \<noteq> d \<longrightarrow>
      (\<exists>s x. env key = Some s \<and> Number s = Num x \<and> 0 < x \<and> envNumber Number env key d = Num x))
   \<and> (env key = None \<longrightarrow> envNumber Number env key d = d)
   \<and> (\<forall>s. env key = Some s
          \<and> (Number s = NaN \<or> Number s = PosInfinity \<or> Number s = NegInfinity
              \<or> (\<exists>x \<le> 0. Number s = Num x))
        \<longrightarrow> envNumber Number env key d = d)
   \<and> (\<forall>s x. env key = Some s \<and> Number s = Num x \<and> 0 < x \<longrightarrow> envNumber Number env key d = Num x)
   \<and> (positive d \<longrightarrow> positive (envNumber Number env key d))
   \<and> (\<forall>(k, dflt) \<in> set knobs. positive (envNumber Number env k dflt))"
proof -
  have pos: "positive (envNumber Number env k dflt)" if "positive dflt" for k dflt
    using that by (auto simp: envNumber_def positive_def split: option.splits js_number.splits)
  have "\<forall>(k, dflt) \<in> set knobs. positive dflt"
    by (simp add: knobs_def positive_def)
  with pos have "\<forall>(k, dflt) \<in> set knobs. positive (envNumber Number env k dflt)"
    by fast
  moreover have "envNumber Number env key d \<noteq> d \<longrightarrow>
      (\<exists>s x. env key = Some s \<and> Number s = Num x \<and> 0 < x \<and> envNumber Number env key d = Num x)"
    by (auto simp: envNumber_def split: option.splits js_number.splits if_splits)
  moreover have "env key = None \<longrightarrow> envNumber Number env key d = d"
    by (simp add: envNumber_def)
  moreover have "\<forall>s. env key = Some s
          \<and> (Number s = NaN \<or> Number s = PosInfinity \<or> Number s = NegInfinity
              \<or> (\<exists>x \<le> 0. Number s = Num x))
        \<longrightarrow> envNumber Number env key d = d"
    by (auto simp: envNumber_def)
  moreover have "\<forall>s x. env key = Some s \<and> Number s = Num x \<and> 0 < x \<longrightarrow> envNumber Number env key d = Num x"
    by (simp add: envNumber_def)
  ultimately show ?thesis using pos[of d key] by blast
qed

theorem envNumber_resolution_witness:
  "envNumber (\<lambda>s. if s = ''2000'' then Num 2000 else NaN) [''LOCK_TTL_MS'' \<mapsto> ''2000'']
      ''LOCK_TTL_MS'' (Num 5000) = Num 2000
   \<and> envNumber (\<lambda>s. if s = ''2000'' then Num 2000 else NaN) [''LOCK_TTL_MS'' \<mapsto> ''abc'']
      ''LOCK_TTL_MS'' (Num 5000) = Num 5000
   \<and> positive (envNumber (\<lambda>s. if s = ''2000'' then Num 2000 else NaN) Map.empty
      ''REDLOCK_RETRY_COUNT'' (Num 3))"
  using envNumber_resolution[of "\<lambda>s. if s = ''2000'' then Num 2000 else NaN"
      "[''LOCK_TTL_MS'' \<mapsto> ''2000'']" "''LOCK_TTL_MS''" "Num 5000"]
    envNumber_resolution[of "\<lambda>s. if s = ''2000'' then Num 2000 else NaN"
      "[''LOCK_TTL_MS'' \<mapsto> ''abc'']" "''LOCK_TTL_MS''" "Num 5000"]
    envNumber_resolution[of "\<lambda>s. if s = ''2000'' then Num 2000 else NaN"
      "Map.empty" "''REDLOCK_RETRY_COUNT''" "Num 3"]
  by (simp add: envNumber_def positive_def)

text \<open>
  C9 as stated speaks of every default. A default that is zero or negative is what an unset
  or rejected variable resolves to.
\<close>

theorem envNumber_nonpositive_default_counterexample:
  "envNumber (\<lambda>s. NaN) Map.empty ''LOCK_TTL_MS'' (Num 0) = Num 0
   \<and> envNumber (\<lambda>s. Num (- 1)) [''LOCK_TTL_MS'' \<mapsto> ''-1''] ''LOCK_TTL_MS'' (Num (- 5)) = Num (- 5)
   \<and> \<not> positive (Num 0) \<and> \<not> positive (Num (- 5))"
  by (simp add: envNumber_def positive_def)

subsection \<open>The lock\<close>

lemmas lock_eval = acquireLock_def acquire_attempts.simps on_all_def elapse_def sleep_def quorum_def
  acquireLockOnInstance_def releaseLockOnInstance_def releaseLockOnAllInstances_def releaseLock_def
  Promise_allSettled_def live_value_def Let_def

lemma Promise_all_Inr: "Promise_all rs = Inr vs \<Longrightarrow> rs = map Inr vs"
  by (induction rs arbitrary: vs rule: Promise_all.induct) (auto split: sum.splits)


lemma elapse_fields [simp]:
  "clients (elapse w) = clients w" "trace (elapse w) = trace w" "time w \<le> time (elapse w)"
  by (auto simp: elapse_def split: list.splits)

lemma on_all_fields:
  "clients (snd (on_all command ev w)) = map (\<lambda>n. snd (command (time w) n)) (clients w)"
  "trace (snd (on_all command ev w)) = trace w @ [ev]"
  "time w \<le> time (snd (on_all command ev w))"
  "fst (on_all command ev w) = map (\<lambda>n. fst (command (time w) n)) (clients w)"
  by (simp_all add: on_all_def Let_def o_def order_trans[OF _ elapse_fields(3)])

lemma sleep_fields [simp]:
  "clients (sleep d w) = clients w" "trace (sleep d w) = trace w @ [Sleep d]" "time (sleep d w) = time w + d"
  by (simp_all add: sleep_def)

lemma release_fields:
  "clients (snd (releaseLockOnAllInstances key tok w)) =
     map (\<lambda>n. snd (releaseLockOnInstance key tok (time w) n)) (clients w)"
  "trace (snd (releaseLockOnAllInstances key tok w)) = trace w @ [CompareAndDelete key tok]"
  "time w \<le> time (snd (releaseLockOnAllInstances key tok w))"
  "fst (releaseLockOnAllInstances key tok w) = Inr ()"
  by (simp_all add: releaseLockOnAllInstances_def Promise_allSettled_def case_prod_beta on_all_fields)


















lemma acquire_attempts_trace_grows:
  "\<exists>rest. trace (snd (acquire_attempts cfg key tok ttl st a w)) = trace w @ rest"
proof (induction cfg key tok ttl st a w rule: acquire_attempts.induct)
  case (1 cfg key tok ttl st a w)
  show ?case
  proof (cases "real a < retryCount cfg")
    case False
    then show ?thesis by (subst acquire_attempts.simps) simp
  next
    case lt: True
    let ?set = "on_all (acquireLockOnInstance key tok ttl) (SetIfAbsent key tok ttl) w"
    obtain outcomes w1 where s: "?set = (outcomes, w1)" by (cases ?set)
    have t1: "trace w1 = trace w @ [SetIfAbsent key tok ttl]"
      using on_all_fields(2)[of "acquireLockOnInstance key tok ttl" "SetIfAbsent key tok ttl" w] s by simp
    show ?thesis
    proof (cases "Promise_all outcomes")
      case (Inl e)
      with lt s t1 show ?thesis by (subst acquire_attempts.simps) simp
    next
      case (Inr acquired)
      show ?thesis
      proof (cases "quorum w1 \<le> length (filter (\<lambda>r. r) acquired)")
        case True
        with lt s t1 Inr show ?thesis by (subst acquire_attempts.simps) simp
      next
        case False
        obtain w2 where rl: "releaseLockOnAllInstances key tok w1 = (Inr (), w2)"
          using release_fields(4)[of key tok w1] by (cases "releaseLockOnAllInstances key tok w1") simp
        then have w2: "w2 = snd (releaseLockOnAllInstances key tok w1)" by simp
        have t2: "trace w2 = trace w @ [SetIfAbsent key tok ttl, CompareAndDelete key tok]"
          unfolding w2 by (simp add: release_fields t1)
        let ?w3 = "if real a < retryCount cfg - 1 then sleep (retryDelayMs cfg) w2 else w2"
        from "1.IH"[OF lt s[symmetric] Inr False rl[symmetric] refl]
        obtain rest where "trace (snd (acquire_attempts cfg key tok ttl st (a + 1) ?w3)) = trace ?w3 @ rest"
          by blast
        moreover have "\<exists>r. trace ?w3 = trace w @ r" by (simp add: t2)
        then obtain r where "trace ?w3 = trace w @ r" by blast
        ultimately have "trace (snd (acquire_attempts cfg key tok ttl st (a + 1) ?w3)) = trace w @ (r @ rest)"
          by (simp only: append_assoc)
        then have "\<exists>r. trace (snd (acquire_attempts cfg key tok ttl st (a + 1) ?w3)) = trace w @ r"
          by blast
        moreover have "acquire_attempts cfg key tok ttl st a w
                       = acquire_attempts cfg key tok ttl st (a + 1) ?w3"
          using lt s Inr False rl by (subst acquire_attempts.simps) simp
        ultimately show ?thesis by simp
      qed
    qed
  qed
qed

lemma acquire_attempts_first_event:
  assumes lt: "real a < retryCount cfg"
  shows "\<exists>rest. trace (snd (acquire_attempts cfg key tok ttl st a w))
                  = trace w @ SetIfAbsent key tok ttl # rest"
proof -
  let ?set = "on_all (acquireLockOnInstance key tok ttl) (SetIfAbsent key tok ttl) w"
  obtain outcomes w1 where s: "?set = (outcomes, w1)" by (cases ?set)
  have t1: "trace w1 = trace w @ [SetIfAbsent key tok ttl]"
    using on_all_fields(2)[of "acquireLockOnInstance key tok ttl" "SetIfAbsent key tok ttl" w] s by simp
  show ?thesis
  proof (cases "Promise_all outcomes")
    case (Inl e)
    with lt s t1 show ?thesis by (subst acquire_attempts.simps) simp
  next
    case (Inr acquired)
    show ?thesis
    proof (cases "quorum w1 \<le> length (filter (\<lambda>r. r) acquired)")
      case True
      with lt s t1 Inr show ?thesis by (subst acquire_attempts.simps) simp
    next
      case False
      obtain w2 where rl: "releaseLockOnAllInstances key tok w1 = (Inr (), w2)"
        using release_fields(4)[of key tok w1] by (cases "releaseLockOnAllInstances key tok w1") simp
      then have w2: "w2 = snd (releaseLockOnAllInstances key tok w1)" by simp
      have t2: "trace w2 = trace w @ [SetIfAbsent key tok ttl, CompareAndDelete key tok]"
        unfolding w2 by (simp add: release_fields t1)
      let ?w3 = "if real a < retryCount cfg - 1 then sleep (retryDelayMs cfg) w2 else w2"
      from acquire_attempts_trace_grows[of cfg key tok ttl st "a + 1" ?w3]
      obtain rest where "trace (snd (acquire_attempts cfg key tok ttl st (a + 1) ?w3)) = trace ?w3 @ rest"
        by blast
      moreover have "\<exists>r. trace ?w3 = trace w @ SetIfAbsent key tok ttl # r" by (simp add: t2)
      then obtain r where "trace ?w3 = trace w @ SetIfAbsent key tok ttl # r" by blast
      ultimately have "trace (snd (acquire_attempts cfg key tok ttl st (a + 1) ?w3))
                       = trace w @ SetIfAbsent key tok ttl # (r @ rest)"
        by simp
      moreover have "acquire_attempts cfg key tok ttl st a w
                     = acquire_attempts cfg key tok ttl st (a + 1) ?w3"
        using lt s Inr False rl by (subst acquire_attempts.simps) simp
      ultimately show ?thesis by simp
    qed
  qed
qed

text \<open>
  C10. When \<open>ttl - floor(ttl * driftFactor)\<close> is not above zero, \<open>acquireLock\<close> fails
  with the conflict \<open>Lock TTL too short for Redlock\<close> and the world is as before: no
  command was sent and no node changed. When it is above zero and an attempt is allowed,
  the first thing sent is the set-if-absent.
\<close>

theorem acquireLock_ttl_too_short:
  "(ttl - \<lfloor>real_of_int ttl * driftFactor cfg\<rfloor> \<le> 0 \<longrightarrow>
      acquireLock cfg key ttl tok w = (Inl (ConflictException ''Lock TTL too short for Redlock''), w))
   \<and> (0 < ttl - \<lfloor>real_of_int ttl * driftFactor cfg\<rfloor> \<and> 0 < retryCount cfg \<longrightarrow>
        (\<exists>rest. trace (snd (acquireLock cfg key ttl tok w)) = trace w @ SetIfAbsent key tok ttl # rest))"
  using acquire_attempts_first_event[of 0 cfg key tok ttl "time w" w]
  by (auto simp: acquireLock_def Let_def)

theorem acquireLock_ttl_too_short_witness:
  "(100::int) - \<lfloor>real_of_int 100 * driftFactor \<lparr> driftFactor = 1, retryCount = 3, retryDelayMs = 200 \<rparr>\<rfloor> \<le> 0
   \<and> acquireLock \<lparr> driftFactor = 1, retryCount = 3, retryDelayMs = 200 \<rparr> ''seat:s1'' 100 ''tok''
         \<lparr> time = 0, latencies = [5], clients = [\<lparr> reachable = (\<lambda>t. True), store = Map.empty \<rparr>],
           trace = [] \<rparr>
       = (Inl (ConflictException ''Lock TTL too short for Redlock''),
          \<lparr> time = 0, latencies = [5], clients = [\<lparr> reachable = (\<lambda>t. True), store = Map.empty \<rparr>],
            trace = [] \<rparr>)
   \<and> trace (snd (acquireLock \<lparr> driftFactor = 1 / 100, retryCount = 3, retryDelayMs = 200 \<rparr>
                     ''seat:s1'' 100 ''tok''
                     \<lparr> time = 0, latencies = [5],
                       clients = [\<lparr> reachable = (\<lambda>t. True), store = Map.empty \<rparr>], trace = [] \<rparr>))
       = [SetIfAbsent ''seat:s1'' ''tok'' 100]"
  using acquireLock_ttl_too_short[of 100 "\<lparr> driftFactor = 1, retryCount = 3, retryDelayMs = 200 \<rparr>"
      "''seat:s1''" "''tok''"
      "\<lparr> time = 0, latencies = [5], clients = [\<lparr> reachable = (\<lambda>t. True), store = Map.empty \<rparr>],
           trace = [] \<rparr>"]
  by (simp add: lock_eval)






subsection \<open>The service call and the transaction\<close>

lemma withLock_state:
  "snd (snd (withLock cfg key ttl work ext tok w s)) = s
   \<or> snd (snd (withLock cfg key ttl work ext tok w s)) = snd (work s)"
  by (auto simp: withLock_def Let_def case_prod_beta split: sum.splits prod.splits)

lemma checkOrCreate_world:
  "snd (snd (checkOrCreate svc now doneAt key payload work records w)) = w
   \<or> snd (snd (checkOrCreate svc now doneAt key payload work records w)) = snd (work w)"
proof (cases "key = []")
  case True
  then show ?thesis by (simp add: checkOrCreate_def)
next
  case False
  show ?thesis
  proof (cases "record_findUnique records key")
    case None
    with False show ?thesis
      by (auto simp: checkOrCreate_def Let_def runInTransaction_def prisma_transaction_def
          case_prod_beta split: sum.splits option.splits)
  next
    case (Some existing)
    with False have "snd (snd (checkOrCreate svc now doneAt key payload work records w)) = w"
      by (auto simp: checkOrCreate_def Let_def runInTransaction_def prisma_transaction_def
          split: sum.splits option.splits IdempotencyState.splits)
    then show ?thesis by simp
  qed
qed

lemma createBooking_store:
  "snd (snd (snd (createBooking idem cfg lockTtlMs now doneAt newId tok input records (w, db)))) = db
   \<or> snd (snd (snd (createBooking idem cfg lockTtlMs now doneAt newId tok input records (w, db))))
       = snd (createBookingTx input newId now db)"
proof -
  let ?work = "\<lambda>(w, db).
                 case withLock cfg (''seat:'' @ input_seatId input) lockTtlMs
                        (createBookingTx input newId now)
                        (Some \<lfloor>real_of_int lockTtlMs * (6 / 10)\<rfloor>) tok w db of
                   (r, w', db') \<Rightarrow> (map_sum id Some r, (w', db'))"
  have work: "snd (snd (?work (w, db))) = db \<or> snd (snd (?work (w, db))) = snd (createBookingTx input newId now db)"
    using withLock_state[of cfg "''seat:'' @ input_seatId input" lockTtlMs
        "createBookingTx input newId now" "Some \<lfloor>real_of_int lockTtlMs * (6 / 10)\<rfloor>" tok w db]
    by (simp add: case_prod_beta)
  from checkOrCreate_world[of idem now doneAt "input_idempotencyKey input"
      "(input_seatId input, input_userId input)" ?work records "(w, db)"] work
  show ?thesis
    by (auto simp: createBooking_def Let_def case_prod_beta split: sum.splits prod.splits)
qed

end
